theory Spec2Isabelle
  imports Main "HOL-Library.Product_Lexorder"
begin

section \<open>JavaScript values as the handlers see them\<close>

text \<open>
  The route handlers read numbers and strings out of a JSON body, a query string or a
  decoded token. A field that is absent reads as \<open>undefined\<close>, modelled as \<open>None\<close>.
  JSON numbers are modelled as integers. The helpers below are the JavaScript
  operators the handlers apply to such fields.
\<close>

definition falsy_num :: "int option \<Rightarrow> bool" where
  \<comment> \<open>\<open>!x\<close> for a number field: \<open>undefined\<close> and \<open>0\<close> are falsy\<close>
  "falsy_num x = (case x of None \<Rightarrow> True | Some n \<Rightarrow> n = 0)"

definition falsy_str :: "string option \<Rightarrow> bool" where
  \<comment> \<open>\<open>!x\<close> for a string field: \<open>undefined\<close> and the empty string are falsy\<close>
  "falsy_str x = (case x of None \<Rightarrow> True | Some s \<Rightarrow> s = [])"

definition or_zero :: "int option \<Rightarrow> int" where
  \<comment> \<open>\<open>x || 0\<close>\<close>
  "or_zero x = (case x of None \<Rightarrow> 0 | Some n \<Rightarrow> if n = 0 then 0 else n)"

definition lt_num :: "int option \<Rightarrow> int \<Rightarrow> bool" where
  \<comment> \<open>\<open>x < k\<close>: a comparison with \<open>undefined\<close> is false\<close>
  "lt_num x k = (case x of None \<Rightarrow> False | Some n \<Rightarrow> n < k)"

definition gt_num :: "int option \<Rightarrow> int \<Rightarrow> bool" where
  \<comment> \<open>\<open>x > k\<close>\<close>
  "gt_num x k = (case x of None \<Rightarrow> False | Some n \<Rightarrow> k < n)"

definition ge_num :: "int option \<Rightarrow> int \<Rightarrow> bool" where
  \<comment> \<open>\<open>x >= k\<close>\<close>
  "ge_num x k = (case x of None \<Rightarrow> False | Some n \<Rightarrow> k \<le> n)"

subsection \<open>\<open>parseInt\<close> with no radix argument\<close>

text \<open>
  A string is held as the UTF-8 bytes of the JavaScript string. \<open>parseInt\<close> first
  skips the white space and line terminators of the language: the ASCII ones in one
  byte, U+00A0 in two, and U+1680, U+2000 to U+200A, U+2028, U+2029, U+202F, U+205F,
  U+3000 and U+FEFF in three.
\<close>

datatype number = NaN | Num int | PosInfinity | NegInfinity

definition isWhiteSpace :: "char \<Rightarrow> bool" where
  "isWhiteSpace c = (c \<in> set [CHR 0x09, CHR 0x0A, CHR 0x0B, CHR 0x0C, CHR 0x0D, CHR 0x20])"

definition isWhiteSpace2 :: "char \<Rightarrow> char \<Rightarrow> bool" where
  "isWhiteSpace2 a b = (a = CHR 0xC2 \<and> b = CHR 0xA0)"

definition isWhiteSpace3 :: "char \<Rightarrow> char \<Rightarrow> char \<Rightarrow> bool" where
  "isWhiteSpace3 a b c =
     ((a = CHR 0xE1 \<and> b = CHR 0x9A \<and> c = CHR 0x80)
      \<or> (a = CHR 0xE2 \<and> b = CHR 0x80
          \<and> ((128 \<le> (of_char c :: nat) \<and> (of_char c :: nat) \<le> 138)
              \<or> c = CHR 0xA8 \<or> c = CHR 0xA9 \<or> c = CHR 0xAF))
      \<or> (a = CHR 0xE2 \<and> b = CHR 0x81 \<and> c = CHR 0x9F)
      \<or> (a = CHR 0xE3 \<and> b = CHR 0x80 \<and> c = CHR 0x80)
      \<or> (a = CHR 0xEF \<and> b = CHR 0xBB \<and> c = CHR 0xBF))"

fun skipWhiteSpace :: "string \<Rightarrow> string" where
  "skipWhiteSpace (a # b # c # s) =
     (if isWhiteSpace a then skipWhiteSpace (b # c # s)
      else if isWhiteSpace2 a b then skipWhiteSpace (c # s)
      else if isWhiteSpace3 a b c then skipWhiteSpace s
      else a # b # c # s)"
| "skipWhiteSpace [a, b] =
     (if isWhiteSpace a then skipWhiteSpace [b]
      else if isWhiteSpace2 a b then []
      else [a, b])"
| "skipWhiteSpace [a] = (if isWhiteSpace a then [] else [a])"
| "skipWhiteSpace [] = []"

definition digitValue :: "char \<Rightarrow> nat option" where
  "digitValue c =
     (let n = (of_char c :: nat)
      in if 48 \<le> n \<and> n \<le> 57 then Some (n - 48)
         else if 97 \<le> n \<and> n \<le> 122 then Some (n - 87)
         else if 65 \<le> n \<and> n \<le> 90 then Some (n - 55)
         else None)"

definition isRadixDigit :: "nat \<Rightarrow> char \<Rightarrow> bool" where
  "isRadixDigit R c = (case digitValue c of None \<Rightarrow> False | Some d \<Rightarrow> d < R)"

fun digitsValue :: "nat \<Rightarrow> nat \<Rightarrow> string \<Rightarrow> nat" where
  "digitsValue R acc [] = acc"
| "digitsValue R acc (c # cs) =
     digitsValue R (acc * R + (case digitValue c of None \<Rightarrow> 0 | Some d \<Rightarrow> d)) cs"

definition stripSign :: "string \<Rightarrow> bool \<times> string" where
  \<comment> \<open>the sign seen and the rest: a leading \<open>+\<close> or \<open>-\<close> is removed\<close>
  "stripSign s =
     (case s of
        [] \<Rightarrow> (False, [])
      | c # cs \<Rightarrow>
          if c = CHR ''-'' then (True, cs)
          else if c = CHR ''+'' then (False, cs)
          else (False, s))"

definition stripPrefix :: "string \<Rightarrow> nat \<times> string" where
  \<comment> \<open>a leading \<open>0x\<close> or \<open>0X\<close> selects radix 16, otherwise the radix is 10\<close>
  "stripPrefix s =
     (if take 2 s = ''0x'' \<or> take 2 s = ''0X'' then (16, drop 2 s) else (10, s))"

text \<open>
  The result of \<open>parseInt\<close> is a double. An integer below \<open>2 ^ 53\<close> is a double as it
  is; a larger one is rounded to 53 significant bits, a tie going to the even
  neighbour, and becomes infinite from \<open>2 ^ 1024\<close> on.
\<close>

fun bitLength :: "nat \<Rightarrow> nat" where
  "bitLength n = (if n = 0 then 0 else Suc (bitLength (n div 2)))"

declare bitLength.simps [simp del]

definition toDouble :: "nat \<Rightarrow> nat option" where
  \<comment> \<open>\<open>None\<close>: the magnitude overflows to infinity\<close>
  "toDouble n =
     (if n < 2 ^ 53 then Some n
      else (let e = bitLength n - 53;
                q = n div 2 ^ e;
                r = n mod 2 ^ e;
                half = 2 ^ (e - 1);
                q' = (if half < r \<or> (r = half \<and> odd q) then q + 1 else q);
                v = q' * 2 ^ e
            in if 2 ^ 1024 \<le> v then None else Some v))"

definition parseInt :: "string option \<Rightarrow> number" where
  \<comment> \<open>\<open>None\<close> as argument is \<open>undefined\<close>, whose text has no digits\<close>
  "parseInt inp =
     (case inp of
        None \<Rightarrow> NaN
      | Some str \<Rightarrow>
          (let (neg, s) = stripSign (skipWhiteSpace str);
               (R, t) = stripPrefix s;
               Z = takeWhile (isRadixDigit R) t
           in if Z = [] then NaN
              else (case toDouble (digitsValue R 0 Z) of
                      None \<Rightarrow> (if neg then NegInfinity else PosInfinity)
                    | Some v \<Rightarrow> Num ((if neg then - 1 else 1) * int v))))"

subsection \<open>The leaderboard limit\<close>

definition or_ten :: "number \<Rightarrow> number" where
  \<comment> \<open>\<open>x || 10\<close>: \<open>NaN\<close> and zero are falsy\<close>
  "or_ten x = (case x of NaN \<Rightarrow> Num 10 | Num n \<Rightarrow> (if n = 0 then Num 10 else Num n) | _ \<Rightarrow> x)"

definition min_100 :: "number \<Rightarrow> number" where
  \<comment> \<open>\<open>Math.min(x, 100)\<close>\<close>
  "min_100 x =
     (case x of
        NaN \<Rightarrow> NaN
      | Num n \<Rightarrow> Num (min n 100)
      | PosInfinity \<Rightarrow> Num 100
      | NegInfinity \<Rightarrow> NegInfinity)"

definition leaderboard_limit :: "string option \<Rightarrow> number" where
  \<comment> \<open>\<open>Math.min(parseInt(req.query.limit) || 10, 100)\<close>\<close>
  "leaderboard_limit q = min_100 (or_ten (parseInt q))"

section \<open>Token verification (\<open>authenticateToken\<close>)\<close>

text \<open>
  The payload of a decoded token. The routes of the repository sign
  \<open>{userId, email, userType}\<close> for a registered user and
  \<open>{guestId, sessionId, username, userType: 'guest'}\<close> for a guest; a claim that is
  not in the payload reads as \<open>undefined\<close>.
\<close>

record claims =
  c_userId :: "nat option"
  c_guestId :: "nat option"
  c_sessionId :: "string option"
  c_email :: "string option"
  c_username :: "string option"
  c_userType :: "string option"

text \<open>\<open>req.user\<close> as the middleware builds it.\<close>

record req_user =
  userId :: "nat option"
  guestId :: "nat option"
  sessionId :: "string option"
  email :: "string option"
  username :: "string option"
  userType :: string

text \<open>
  \<open>jwt.verify\<close> belongs to the jsonwebtoken package, not to the repository. The
  middleware only looks at whether the callback receives an error or a payload, so the
  verifier (with the key and the clock fixed) is a parameter: a function from the token
  text to an error or the decoded claims. The errors are the three classes the package
  raises.
\<close>

datatype jwt_error = JsonWebTokenError | NotBeforeError | TokenExpiredError

type_synonym verifier = "string \<Rightarrow> jwt_error + claims"

text \<open>
  A small executable verifier for concrete inputs: the tokens in circulation are a table
  from the token text to the key it was signed with, its expiry time and its payload.
  The signature is checked before the expiry, as the package does.
\<close>

record signed_token =
  signing_key :: string
  expires_at :: nat
  token_payload :: claims

definition jwt_verify :: "(string \<times> signed_token) list \<Rightarrow> string \<Rightarrow> nat \<Rightarrow> verifier" where
  "jwt_verify issued key now tok =
     (case map_of issued tok of
        None \<Rightarrow> Inl JsonWebTokenError
      | Some t \<Rightarrow>
          if signing_key t \<noteq> key then Inl JsonWebTokenError
          else if expires_at t \<le> now then Inl TokenExpiredError
          else Inr (token_payload t))"

text \<open>The error texts of the JSON replies, one constructor for each text in the routes.\<close>

datatype msg =
    Token_de_acceso_requerido
  | Token_invalido
  | Modulo_no_encontrado
  | Porcentaje_entre_0_y_100
  | Tiempo_no_negativo
  | Puntuacion_no_negativa
  | Datos_incompletos
  | Valores_invalidos
  | Error_interno_del_servidor

datatype auth_outcome =
    Rejected nat msg   \<comment> \<open>\<open>res.status(n).json({error: ...})\<close>\<close>
  | Next req_user      \<comment> \<open>\<open>req.user\<close> is set and \<open>next()\<close> is called\<close>

fun split_on :: "char \<Rightarrow> string \<Rightarrow> string list" where
  "split_on sep [] = [[]]"
| "split_on sep (c # cs) =
     (if c = sep then [] # split_on sep cs
      else (case split_on sep cs of
              [] \<Rightarrow> [[c]]
            | w # ws \<Rightarrow> (c # w) # ws))"

definition header_token :: "string option \<Rightarrow> string option" where
  \<comment> \<open>\<open>authHeader && authHeader.split(' ')[1]\<close>\<close>
  "header_token authHeader =
     (case authHeader of
        None \<Rightarrow> None
      | Some h \<Rightarrow>
          if h = [] then Some []
          else (case split_on CHR '' '' h of
                  _ # t # _ \<Rightarrow> Some t
                | _ \<Rightarrow> None))"

definition truthy_id :: "nat option \<Rightarrow> bool" where
  "truthy_id x = (case x of None \<Rightarrow> False | Some n \<Rightarrow> n \<noteq> 0)"

definition normalize :: "claims \<Rightarrow> req_user" where
  "normalize decoded =
     \<lparr> userId = (if truthy_id (c_userId decoded) then c_userId decoded else c_guestId decoded),
       guestId = c_guestId decoded,
       sessionId = c_sessionId decoded,
       email = c_email decoded,
       username = c_username decoded,
       userType = (if falsy_str (c_userType decoded) then ''student''
                   else (case c_userType decoded of None \<Rightarrow> ''student'' | Some t \<Rightarrow> t)) \<rparr>"

definition authenticateToken :: "verifier \<Rightarrow> string option \<Rightarrow> auth_outcome" where
  "authenticateToken verify authHeader =
     (let token = header_token authHeader
      in if falsy_str token then Rejected 401 Token_de_acceso_requerido
         else (case token of
                 None \<Rightarrow> Rejected 401 Token_de_acceso_requerido
               | Some tok \<Rightarrow>
                   (case verify tok of
                      Inl err \<Rightarrow> Rejected 403 Token_invalido
                    | Inr decoded \<Rightarrow> Next (normalize decoded))))"

section \<open>The store\<close>

text \<open>
  The tables the handlers touch, as lists of rows in insertion order. The schema is not
  part of the sources; the columns are those the handlers name. \<open>insert\<close> of
  \<open>config/database.js\<close> is a plain \<open>INSERT\<close> that returns the auto-increment key,
  \<open>update\<close> is \<open>UPDATE ... WHERE id_progreso = ?\<close>. A column that an insert
  does not name keeps the table's default (\<open>None\<close> for \<open>ultimo_acceso\<close>).
  A module is its key: \<open>findById\<close> compares the column \<open>id\<close> with the
  module id of the request and the joins compare \<open>id_modulo\<close>; the model has the one
  list of module keys for both. User and guest session rows are a key and a name.
\<close>

record progreso =
  id_progreso :: nat
  pu_id_usuario :: nat
  pu_id_modulo :: nat
  porcentaje_completado :: int
  tiempo_empleado :: int
  esta_completado :: bool
  pu_puntuacion :: int
  ultimo_acceso :: "nat option"

record resultado_juego =
  id_resultado :: nat
  rj_id_usuario :: "nat option"
  rj_id_sesion_invitado :: "nat option"
  tipo_juego :: string
  rj_puntuacion :: int
  nivel_alcanzado :: int
  tiempo_jugado :: int
  metadatos :: "string option"
  fecha_juego :: nat

record store =
  modulos :: "nat list"
  usuarios :: "(nat \<times> string) list"
  sesiones_invitados :: "(nat \<times> string) list"
  progreso_usuarios :: "progreso list"
  resultados_juegos :: "resultado_juego list"
  next_id_progreso :: nat
  next_id_resultado :: nat

definition findById_modulos :: "store \<Rightarrow> nat \<Rightarrow> nat option" where
  \<comment> \<open>\<open>findById('modulos', moduleId)\<close>: the module row, or \<open>null\<close>\<close>
  "findById_modulos s moduleId = (if moduleId \<in> set (modulos s) then Some moduleId else None)"

definition select_progreso :: "store \<Rightarrow> nat \<Rightarrow> nat \<Rightarrow> progreso list" where
  \<comment> \<open>\<open>... FROM progreso_usuarios WHERE id_usuario = ? AND id_modulo = ?\<close>\<close>
  "select_progreso s u m =
     filter (\<lambda>r. pu_id_usuario r = u \<and> pu_id_modulo r = m) (progreso_usuarios s)"

definition select_progreso_join :: "store \<Rightarrow> nat \<Rightarrow> nat \<Rightarrow> progreso list" where
  \<comment> \<open>the same rows joined with \<open>modulos\<close>; the module's columns are left out\<close>
  "select_progreso_join s u m =
     filter (\<lambda>r. pu_id_modulo r \<in> set (modulos s)) (select_progreso s u m)"

definition select_progreso_by_id :: "store \<Rightarrow> nat \<Rightarrow> progreso list" where
  "select_progreso_by_id s i =
     filter (\<lambda>r. id_progreso r = i \<and> pu_id_modulo r \<in> set (modulos s)) (progreso_usuarios s)"

definition insert_progreso :: "store \<Rightarrow> progreso \<Rightarrow> nat \<times> store" where
  \<comment> \<open>the row's key is assigned by the table; returns \<open>insertId\<close>\<close>
  "insert_progreso s row =
     (let i = next_id_progreso s
      in (i, s\<lparr> progreso_usuarios := progreso_usuarios s @ [row\<lparr> id_progreso := i \<rparr>],
                next_id_progreso := Suc i \<rparr>))"

definition update_progreso :: "store \<Rightarrow> nat \<Rightarrow> (progreso \<Rightarrow> progreso) \<Rightarrow> store" where
  "update_progreso s i f =
     s\<lparr> progreso_usuarios := map (\<lambda>r. if id_progreso r = i then f r else r) (progreso_usuarios s) \<rparr>"

definition insert_resultado :: "store \<Rightarrow> resultado_juego \<Rightarrow> nat \<times> store" where
  "insert_resultado s row =
     (let i = next_id_resultado s
      in (i, s\<lparr> resultados_juegos := resultados_juegos s @ [row\<lparr> id_resultado := i \<rparr>],
                next_id_resultado := Suc i \<rparr>))"

section \<open>Replies\<close>

text \<open>A row of the leaderboard query, and the entry the route builds from it.\<close>

record board_row =
  score :: int
  level_reached :: int
  time_played :: int
  played_at :: nat
  player_name :: string
  player_type :: string

record entry = board_row +
  rank :: nat

datatype payload =
    Error msg
  | EmptyList                           \<comment> \<open>\<open>[]\<close>\<close>
  | GuestNotice                         \<comment> \<open>progress is not saved for guests\<close>
  | ProgressRow "progreso option"       \<comment> \<open>\<open>res.json(progress[0])\<close>\<close>
  | ProgressUpdated "progreso option"   \<comment> \<open>\<open>{message, progress: updatedProgress[0]}\<close>\<close>
  | ModuleCompleted "progreso option"   \<comment> \<open>\<open>{message, progress: completedProgress[0]}\<close>\<close>
  | ResultSaved nat int int             \<comment> \<open>\<open>{message, resultId, score, levelReached}\<close>\<close>
  | LeaderboardPage string nat "entry list"  \<comment> \<open>\<open>{gameType, totalEntries, leaderboard}\<close>\<close>

datatype response = Response nat payload

fun status :: "response \<Rightarrow> nat" where
  "status (Response n p) = n"

definition first_row :: "'a list \<Rightarrow> 'a option" where
  \<comment> \<open>\<open>rows[0]\<close>, \<open>undefined\<close> on an empty result\<close>
  "first_row rows = (case rows of [] \<Rightarrow> None | r # _ \<Rightarrow> Some r)"

section \<open>Progress routes (\<open>routes/progress.js\<close>)\<close>

text \<open>
  The driver refuses a bind parameter that is \<open>undefined\<close>; the handler's \<open>catch\<close>
  turns the exception into status 500. This is where a \<open>req.user\<close> without a user id
  ends.
\<close>

definition requireRegisteredUser :: "req_user \<Rightarrow> response option" where
  \<comment> \<open>\<open>Some\<close> reply: the middleware answered; \<open>None\<close>: it called \<open>next()\<close>\<close>
  "requireRegisteredUser usr =
     (if userType usr = ''guest'' then Some (Response 200 EmptyList) else None)"

definition getProgress :: "req_user \<Rightarrow> nat \<Rightarrow> store \<Rightarrow> response \<times> store" where
  \<comment> \<open>\<open>GET /:moduleId\<close>\<close>
  "getProgress usr moduleId s =
     (case requireRegisteredUser usr of
        Some reply \<Rightarrow> (reply, s)
      | None \<Rightarrow>
          (case findById_modulos s moduleId of
             None \<Rightarrow> (Response 404 (Error Modulo_no_encontrado), s)
           | Some _ \<Rightarrow>
               (case userId usr of
                  None \<Rightarrow> (Response 500 (Error Error_interno_del_servidor), s)
                | Some u \<Rightarrow>
                    (let progress = select_progreso_join s u moduleId
                     in if progress = [] then
                          (let (i, s') = insert_progreso s
                                 \<lparr> id_progreso = 0, pu_id_usuario = u, pu_id_modulo = moduleId,
                                   porcentaje_completado = 0, tiempo_empleado = 0,
                                   esta_completado = False, pu_puntuacion = 0,
                                   ultimo_acceso = None \<rparr>
                           in (Response 200 (ProgressRow (first_row (select_progreso_by_id s' i))), s'))
                        else (Response 200 (ProgressRow (first_row progress)), s)))))"

text \<open>
  \<open>PUT /:moduleId\<close>. The handler gives control back at each \<open>await\<close>, so it is
  written in the pieces between them: everything up to the \<open>SELECT id_progreso\<close>
  (which only reads), the \<open>INSERT\<close> or \<open>UPDATE\<close> chosen from that result, and
  the final \<open>SELECT\<close> for the reply.
\<close>

definition upsert_select ::
  "req_user \<Rightarrow> nat \<Rightarrow> int option \<Rightarrow> int option \<Rightarrow> int option \<Rightarrow> store \<Rightarrow> response + (nat \<times> nat list)" where
  \<comment> \<open>\<open>Inl\<close>: an early reply; \<open>Inr\<close>: the user id and the keys in \<open>existingProgress\<close>\<close>
  "upsert_select usr moduleId completion_percentage time_spent pscore s =
     (if userType usr = ''guest'' then Inl (Response 200 GuestNotice)
      else if completion_percentage \<noteq> None
              \<and> (lt_num completion_percentage 0 \<or> gt_num completion_percentage 100)
        then Inl (Response 400 (Error Porcentaje_entre_0_y_100))
      else if time_spent \<noteq> None \<and> lt_num time_spent 0
        then Inl (Response 400 (Error Tiempo_no_negativo))
      else if pscore \<noteq> None \<and> lt_num pscore 0
        then Inl (Response 400 (Error Puntuacion_no_negativa))
      else (case findById_modulos s moduleId of
              None \<Rightarrow> Inl (Response 404 (Error Modulo_no_encontrado))
            | Some _ \<Rightarrow>
                (case userId usr of
                   None \<Rightarrow> Inl (Response 500 (Error Error_interno_del_servidor))
                 | Some u \<Rightarrow> Inr (u, map id_progreso (select_progreso s u moduleId)))))"

definition upsert_data :: "int option \<Rightarrow> int option \<Rightarrow> int option \<Rightarrow> nat \<Rightarrow> progreso \<Rightarrow> progreso" where
  \<comment> \<open>the columns of \<open>progressData\<close>, written over a row\<close>
  "upsert_data completion_percentage time_spent pscore now r =
     r\<lparr> porcentaje_completado := or_zero completion_percentage,
        tiempo_empleado := or_zero time_spent,
        pu_puntuacion := or_zero pscore,
        esta_completado := ge_num completion_percentage 100,
        ultimo_acceso := Some now \<rparr>"

definition upsert_write ::
  "nat \<Rightarrow> nat \<Rightarrow> int option \<Rightarrow> int option \<Rightarrow> int option \<Rightarrow> nat \<Rightarrow> nat list \<Rightarrow> store \<Rightarrow> store" where
  "upsert_write u moduleId completion_percentage time_spent pscore now existingProgress s =
     (case existingProgress of
        [] \<Rightarrow>
          snd (insert_progreso s
                 \<lparr> id_progreso = 0, pu_id_usuario = u, pu_id_modulo = moduleId,
                   porcentaje_completado = or_zero completion_percentage,
                   tiempo_empleado = or_zero time_spent,
                   esta_completado = ge_num completion_percentage 100,
                   pu_puntuacion = or_zero pscore,
                   ultimo_acceso = Some now \<rparr>)
      | i # _ \<Rightarrow>
          update_progreso s i (upsert_data completion_percentage time_spent pscore now))"

definition upsert_reply :: "nat \<Rightarrow> nat \<Rightarrow> store \<Rightarrow> response" where
  "upsert_reply u moduleId s =
     Response 200 (ProgressUpdated (first_row (select_progreso_join s u moduleId)))"

definition upsertProgress ::
  "req_user \<Rightarrow> nat \<Rightarrow> int option \<Rightarrow> int option \<Rightarrow> int option \<Rightarrow> nat \<Rightarrow> store \<Rightarrow> response \<times> store" where
  "upsertProgress usr moduleId completion_percentage time_spent pscore now s =
     (case upsert_select usr moduleId completion_percentage time_spent pscore s of
        Inl reply \<Rightarrow> (reply, s)
      | Inr (u, existingProgress) \<Rightarrow>
          (let s' = upsert_write u moduleId completion_percentage time_spent pscore now
                      existingProgress s
           in (upsert_reply u moduleId s', s')))"

text \<open>\<open>POST /:moduleId/complete\<close>, in the same pieces.\<close>

definition complete_select ::
  "req_user \<Rightarrow> nat \<Rightarrow> store \<Rightarrow> response + (nat \<times> nat list)" where
  "complete_select usr moduleId s =
     (if userType usr = ''guest'' then Inl (Response 200 GuestNotice)
      else (case findById_modulos s moduleId of
              None \<Rightarrow> Inl (Response 404 (Error Modulo_no_encontrado))
            | Some _ \<Rightarrow>
                (case userId usr of
                   None \<Rightarrow> Inl (Response 500 (Error Error_interno_del_servidor))
                 | Some u \<Rightarrow> Inr (u, map id_progreso (select_progreso s u moduleId)))))"

definition complete_data :: "int option \<Rightarrow> nat \<Rightarrow> progreso \<Rightarrow> progreso" where
  "complete_data pscore now r =
     r\<lparr> porcentaje_completado := 100,
        esta_completado := True,
        pu_puntuacion := or_zero pscore,
        ultimo_acceso := Some now \<rparr>"

definition complete_write ::
  "nat \<Rightarrow> nat \<Rightarrow> int option \<Rightarrow> nat \<Rightarrow> nat list \<Rightarrow> store \<Rightarrow> store" where
  "complete_write u moduleId pscore now existingProgress s =
     (case existingProgress of
        [] \<Rightarrow>
          snd (insert_progreso s
                 \<lparr> id_progreso = 0, pu_id_usuario = u, pu_id_modulo = moduleId,
                   porcentaje_completado = 100, tiempo_empleado = 0,
                   esta_completado = True, pu_puntuacion = or_zero pscore,
                   ultimo_acceso = Some now \<rparr>)
      | i # _ \<Rightarrow> update_progreso s i (complete_data pscore now))"

definition complete_reply :: "nat \<Rightarrow> nat \<Rightarrow> store \<Rightarrow> response" where
  "complete_reply u moduleId s =
     Response 200 (ModuleCompleted (first_row (select_progreso_join s u moduleId)))"

definition completeProgress ::
  "req_user \<Rightarrow> nat \<Rightarrow> int option \<Rightarrow> nat \<Rightarrow> store \<Rightarrow> response \<times> store" where
  "completeProgress usr moduleId pscore now s =
     (case complete_select usr moduleId s of
        Inl reply \<Rightarrow> (reply, s)
      | Inr (u, existingProgress) \<Rightarrow>
          (let s' = complete_write u moduleId pscore now existingProgress s
           in (complete_reply u moduleId s', s')))"

subsection \<open>A caller's sequence of calls\<close>

datatype call =
    GetProgress nat
  | UpsertProgress nat "int option" "int option" "int option"
  | CompleteProgress nat "int option"

fun perform :: "req_user \<Rightarrow> nat \<Rightarrow> call \<Rightarrow> store \<Rightarrow> response \<times> store" where
  "perform usr now (GetProgress m) s = getProgress usr m s"
| "perform usr now (UpsertProgress m cp ts sc) s = upsertProgress usr m cp ts sc now s"
| "perform usr now (CompleteProgress m sc) s = completeProgress usr m sc now s"

fun run_calls :: "req_user \<Rightarrow> (nat \<times> call) list \<Rightarrow> store \<Rightarrow> response list \<times> store" where
  \<comment> \<open>each call with the time it is made at; one call ends before the next starts\<close>
  "run_calls usr [] s = ([], s)"
| "run_calls usr ((now, c) # cs) s =
     (let (reply, s') = perform usr now c s;
          (replies, s'') = run_calls usr cs s'
      in (reply # replies, s''))"

subsection \<open>Requests in flight at the same time\<close>

text \<open>
  Each request is an asynchronous handler; the event loop resumes one handler at a time
  and runs it to its next \<open>await\<close>. A schedule is the order in which the handlers are
  resumed, each with the clock at that moment.
\<close>

datatype request =
    PutProgress req_user nat "int option" "int option" "int option"
  | PostComplete req_user nat "int option"

datatype handler =
    Pending request                  \<comment> \<open>not started\<close>
  | Selected request nat "nat list"  \<comment> \<open>holds \<open>existingProgress\<close>, about to write\<close>
  | Finished response

fun resume :: "nat \<Rightarrow> handler \<Rightarrow> store \<Rightarrow> handler \<times> store" where
  "resume now (Pending (PutProgress usr m cp ts sc)) s =
     (case upsert_select usr m cp ts sc s of
        Inl reply \<Rightarrow> (Finished reply, s)
      | Inr (u, existingProgress) \<Rightarrow> (Selected (PutProgress usr m cp ts sc) u existingProgress, s))"
| "resume now (Pending (PostComplete usr m sc)) s =
     (case complete_select usr m s of
        Inl reply \<Rightarrow> (Finished reply, s)
      | Inr (u, existingProgress) \<Rightarrow> (Selected (PostComplete usr m sc) u existingProgress, s))"
| "resume now (Selected (PutProgress usr m cp ts sc) u existingProgress) s =
     (let s' = upsert_write u m cp ts sc now existingProgress s
      in (Finished (upsert_reply u m s'), s'))"
| "resume now (Selected (PostComplete usr m sc) u existingProgress) s =
     (let s' = complete_write u m sc now existingProgress s
      in (Finished (complete_reply u m s'), s'))"
| "resume now (Finished reply) s = (Finished reply, s)"

fun run_schedule :: "(nat \<times> nat) list \<Rightarrow> handler list \<Rightarrow> store \<Rightarrow> handler list \<times> store" where
  \<comment> \<open>a step \<open>(i, now)\<close> resumes handler \<open>i\<close> at time \<open>now\<close>\<close>
  "run_schedule [] hs s = (hs, s)"
| "run_schedule ((i, now) # steps) hs s =
     (if i < length hs then
        (let (h', s') = resume now (hs ! i) s
         in run_schedule steps (hs[i := h']) s')
      else run_schedule steps hs s)"

definition rows_for :: "store \<Rightarrow> nat \<Rightarrow> nat \<Rightarrow> nat" where
  \<comment> \<open>how many Progress rows the pair (user, module) has\<close>
  "rows_for s u m = length (select_progreso s u m)"

section \<open>Game routes (\<open>routes/games.js\<close>)\<close>

subsection \<open>\<open>POST /result\<close>\<close>

text \<open>
  A value handed to the driver as a bind parameter: \<open>undefined\<close>, \<open>null\<close> or a
  value. The driver raises on \<open>undefined\<close> and stores \<open>null\<close> as SQL \<open>NULL\<close>.
\<close>

datatype 'a bind = Undefined | Null | Value 'a

definition bind_of :: "'a option \<Rightarrow> 'a bind" where
  "bind_of x = (case x of None \<Rightarrow> Undefined | Some v \<Rightarrow> Value v)"

definition column_of :: "'a bind \<Rightarrow> 'a option option" where
  \<comment> \<open>\<open>None\<close>: the driver raises; \<open>Some c\<close>: the column value \<open>c\<close> is stored\<close>
  "column_of b = (case b of Undefined \<Rightarrow> None | Null \<Rightarrow> Some None | Value v \<Rightarrow> Some (Some v))"

text \<open>
  \<open>metadata\<close> is opaque: \<open>Some j\<close> is a truthy value whose \<open>JSON.stringify\<close> text is
  \<open>j\<close>, \<open>None\<close> is an absent or falsy one.
\<close>

definition recordGameResult ::
  "req_user \<Rightarrow> string option \<Rightarrow> int option \<Rightarrow> int option \<Rightarrow> int option \<Rightarrow> string option
     \<Rightarrow> nat \<Rightarrow> store \<Rightarrow> response \<times> store" where
  "recordGameResult usr gameType gscore levelReached timePlayed metadata now s =
     (if falsy_str gameType \<or> gscore = None \<or> falsy_num levelReached \<or> falsy_num timePlayed
        then (Response 400 (Error Datos_incompletos), s)
      else if lt_num gscore 0 \<or> lt_num levelReached 1 \<or> lt_num timePlayed 0
        then (Response 400 (Error Valores_invalidos), s)
      else
        (let id_usuario = (if userType usr = ''guest'' then Null else bind_of (userId usr));
             id_sesion_invitado = (if userType usr = ''guest'' then bind_of (guestId usr) else Null)
         in case (gameType, gscore, levelReached, timePlayed) of
              (Some g, Some sc, Some lv, Some tp) \<Rightarrow>
                (case (column_of id_usuario, column_of id_sesion_invitado) of
                   (Some cu, Some cg) \<Rightarrow>
                     (let (i, s') = insert_resultado s
                            \<lparr> id_resultado = 0, rj_id_usuario = cu, rj_id_sesion_invitado = cg,
                              tipo_juego = g, rj_puntuacion = sc, nivel_alcanzado = lv,
                              tiempo_jugado = tp, metadatos = metadata, fecha_juego = now \<rparr>
                      in (Response 201 (ResultSaved i sc lv), s'))
                 | _ \<Rightarrow> (Response 500 (Error Error_interno_del_servidor), s))
            | _ \<Rightarrow> (Response 400 (Error Datos_incompletos), s)))"

subsection \<open>\<open>GET /leaderboard/:gameType\<close>\<close>

text \<open>
  \<open>ORDER BY puntuacion DESC, nivel_alcanzado DESC, tiempo_jugado ASC\<close> is an ascending
  sort on the key below. The database fixes no order among rows equal in all three
  columns; the model keeps them in table order.
\<close>

definition order_key :: "resultado_juego \<Rightarrow> int \<times> int \<times> int" where
  "order_key r = (- rj_puntuacion r, - nivel_alcanzado r, tiempo_jugado r)"

definition left_join :: "(nat \<times> string) list \<Rightarrow> nat option \<Rightarrow> string option" where
  \<comment> \<open>the name column of the joined row, \<open>NULL\<close> when no row joins\<close>
  "left_join tbl k = (case k of None \<Rightarrow> None | Some i \<Rightarrow> map_of tbl i)"

definition anonimo :: string where
  \<comment> \<open>the placeholder name of the query; its accented letter is two bytes in UTF-8\<close>
  "anonimo = ''An'' @ [CHR 0xC3, CHR 0xB3] @ ''nimo''"

definition select_row :: "store \<Rightarrow> resultado_juego \<Rightarrow> board_row" where
  "select_row s r =
     (let u = left_join (usuarios s) (rj_id_usuario r);
          si = left_join (sesiones_invitados s) (rj_id_sesion_invitado r)
      in \<lparr> score = rj_puntuacion r,
           level_reached = nivel_alcanzado r,
           time_played = tiempo_jugado r,
           played_at = fecha_juego r,
           player_name = (case u of Some n \<Rightarrow> n
                          | None \<Rightarrow> (case si of Some n \<Rightarrow> n | None \<Rightarrow> anonimo)),
           player_type = (if u \<noteq> None then ''registered''
                          else if si \<noteq> None then ''guest'' else ''anonymous'') \<rparr>)"

definition select_leaderboard :: "store \<Rightarrow> string \<Rightarrow> nat \<Rightarrow> board_row list" where
  "select_leaderboard s gameType limit =
     map (select_row s)
       (take limit (sort_key order_key
          (filter (\<lambda>r. tipo_juego r = gameType) (resultados_juegos s))))"

fun with_rank :: "nat \<Rightarrow> board_row list \<Rightarrow> entry list" where
  \<comment> \<open>\<open>leaderboard.map((entry, index) => ({rank: index + 1, ...entry}))\<close>, from \<open>index\<close> on\<close>
  "with_rank index [] = []"
| "with_rank index (e # es) =
     \<lparr> score = score e, level_reached = level_reached e, time_played = time_played e,
       played_at = played_at e, player_name = player_name e, player_type = player_type e,
       rank = index + 1 \<rparr> # with_rank (Suc index) es"

text \<open>
  The query runs with \<open>LIMIT ?\<close> bound to the limit. For a limit that is a natural
  number the rows are the first so many of the ordered result. What the database does
  with any other limit (a negative number, an infinity) is not in the sources: its
  answer is the parameter \<open>other\<close>, \<open>None\<close> when it refuses the statement, which the
  handler's \<open>catch\<close> turns into status 500, or the rows it returns.
\<close>

definition getLeaderboard ::
  "board_row list option \<Rightarrow> store \<Rightarrow> string \<Rightarrow> string option \<Rightarrow> response" where
  "getLeaderboard other s gameType q =
     (let limit = leaderboard_limit q;
          result = (case limit of
                      Num n \<Rightarrow> (if 0 \<le> n then Some (select_leaderboard s gameType (nat n))
                                else other)
                    | _ \<Rightarrow> other)
      in case result of
           None \<Rightarrow> Response 500 (Error Error_interno_del_servidor)
         | Some leaderboard \<Rightarrow>
             Response 200
               (LeaderboardPage gameType (length leaderboard) (with_rank 0 leaderboard)))"

definition leaderboard_of :: "response \<Rightarrow> entry list" where
  "leaderboard_of reply =
     (case reply of Response _ (LeaderboardPage _ _ es) \<Rightarrow> es | _ \<Rightarrow> [])"

definition ranks_before :: "entry \<Rightarrow> entry \<Rightarrow> bool" where
  \<comment> \<open>the first entry is not below the second: score, then level, then time\<close>
  "ranks_before a b =
     (score b < score a
      \<or> (score a = score b
          \<and> (level_reached b < level_reached a
              \<or> (level_reached a = level_reached b \<and> time_played a \<le> time_played b))))"

section \<open>Predicates and concrete data used in the statements\<close>

definition in_sync :: "progreso \<Rightarrow> bool" where
  \<comment> \<open>the completed flag agrees with the percentage\<close>
  "in_sync r = (esta_completado r = (100 \<le> porcentaje_completado r))"

definition ada :: req_user where
  \<comment> \<open>\<open>req.user\<close> of a registered user, from the token \<open>/register\<close> signs\<close>
  "ada = normalize \<lparr> c_userId = Some 7, c_guestId = None, c_sessionId = None,
                     c_email = Some ''a@x.com'', c_username = None,
                     c_userType = Some ''student'' \<rparr>"

definition bob :: req_user where
  \<comment> \<open>\<open>req.user\<close> of a guest, from the token \<open>/guest\<close> signs\<close>
  "bob = normalize \<lparr> c_userId = None, c_guestId = Some 3, c_sessionId = Some ''s-3'',
                     c_email = None, c_username = Some ''Bob'',
                     c_userType = Some ''guest'' \<rparr>"

definition store0 :: store where
  "store0 = \<lparr> modulos = [1], usuarios = [(7, ''Ada'')], sesiones_invitados = [(3, ''Bob'')],
              progreso_usuarios = [], resultados_juegos = [],
              next_id_progreso = 1, next_id_resultado = 1 \<rparr>"

definition store1 :: store where
  \<comment> \<open>the store after Ada has reached 40 percent of module 1 with 30 seconds and 8 points\<close>
  "store1 = store0 \<lparr> progreso_usuarios :=
                       [\<lparr> id_progreso = 1, pu_id_usuario = 7, pu_id_modulo = 1,
                          porcentaje_completado = 40, tiempo_empleado = 30,
                          esta_completado = False, pu_puntuacion = 8,
                          ultimo_acceso = Some 5 \<rparr>],
                     next_id_progreso := 2 \<rparr>"

definition tokens0 :: "(string \<times> signed_token) list" where
  \<comment> \<open>three tokens for Ada: one valid until 90, one that expired at 10, one signed with another key\<close>
  "tokens0 =
     (let payload = \<lparr> c_userId = Some 7, c_guestId = None, c_sessionId = None,
                      c_email = Some ''a@x.com'', c_username = None,
                      c_userType = Some ''student'' \<rparr>
      in [(''good'', \<lparr> signing_key = ''k'', expires_at = 90, token_payload = payload \<rparr>),
          (''old'', \<lparr> signing_key = ''k'', expires_at = 10, token_payload = payload \<rparr>),
          (''forged'', \<lparr> signing_key = ''x'', expires_at = 90, token_payload = payload \<rparr>)])"

definition game_row :: "nat \<Rightarrow> int \<Rightarrow> int \<Rightarrow> int \<Rightarrow> resultado_juego" where
  "game_row i sc lv tp =
     \<lparr> id_resultado = i, rj_id_usuario = Some 7, rj_id_sesion_invitado = None,
       tipo_juego = ''snake'', rj_puntuacion = sc, nivel_alcanzado = lv,
       tiempo_jugado = tp, metadatos = None, fecha_juego = 0 \<rparr>"

definition store_games :: store where
  "store_games = store0 \<lparr> resultados_juegos :=
                            [game_row 1 10 2 50, game_row 2 10 2 30, game_row 3 15 1 99],
                          next_id_resultado := 4 \<rparr>"

definition two_puts :: "handler list" where
  \<comment> \<open>two \<open>PUT /1\<close> requests of Ada, neither started\<close>
  "two_puts = [Pending (PutProgress ada 1 (Some 40) None None),
               Pending (PutProgress ada 1 (Some 60) None None)]"

definition row_of :: "entry \<Rightarrow> board_row" where
  \<comment> \<open>an entry without its rank\<close>
  "row_of e = \<lparr> score = score e, level_reached = level_reached e,
                time_played = time_played e, played_at = played_at e,
                player_name = player_name e, player_type = player_type e \<rparr>"

definition row_key :: "board_row \<Rightarrow> int \<times> int \<times> int" where
  \<comment> \<open>the sort key, read off a selected row\<close>
  "row_key e = (- score e, - level_reached e, time_played e)"

definition row_done :: progreso where
  \<comment> \<open>Ada's row after an upsert to 100 percent with 60 seconds and 9 points at time 200\<close>
  "row_done = \<lparr> id_progreso = 1, pu_id_usuario = 7, pu_id_modulo = 1,
                 porcentaje_completado = 100, tiempo_empleado = 60,
                 esta_completado = True, pu_puntuacion = 9,
                 ultimo_acceso = Some 200 \<rparr>"

definition row_reset :: progreso where
  \<comment> \<open>Ada's row after an upsert with an empty body at time 200\<close>
  "row_reset = \<lparr> id_progreso = 1, pu_id_usuario = 7, pu_id_modulo = 1,
                  porcentaje_completado = 0, tiempo_empleado = 0,
                  esta_completado = False, pu_puntuacion = 0,
                  ultimo_acceso = Some 200 \<rparr>"

section \<open>The store operations\<close>

lemma modulos_update_progreso: "modulos (update_progreso s i f) = modulos s"
  by (simp add: update_progreso_def)

lemma modulos_insert_progreso: "modulos (snd (insert_progreso s row)) = modulos s"
  by (simp add: insert_progreso_def Let_def)

lemma progreso_insert:
  "progreso_usuarios (snd (insert_progreso s row)) =
     progreso_usuarios s @ [row\<lparr>id_progreso := next_id_progreso s\<rparr>]"
  by (simp add: insert_progreso_def Let_def)

lemma progreso_update:
  "progreso_usuarios (update_progreso s i f) =
     map (\<lambda>r. if id_progreso r = i then f r else r) (progreso_usuarios s)"
  by (simp add: update_progreso_def)

lemma upsert_data_keys:
  "pu_id_usuario (upsert_data cp ts sc now r) = pu_id_usuario r"
  "pu_id_modulo (upsert_data cp ts sc now r) = pu_id_modulo r"
  "id_progreso (upsert_data cp ts sc now r) = id_progreso r"
  by (simp_all add: upsert_data_def)

lemma complete_data_keys:
  "pu_id_usuario (complete_data sc now r) = pu_id_usuario r"
  "pu_id_modulo (complete_data sc now r) = pu_id_modulo r"
  "id_progreso (complete_data sc now r) = id_progreso r"
  by (simp_all add: complete_data_def)

lemma select_update:
  assumes "\<And>r. pu_id_usuario (f r) = pu_id_usuario r" "\<And>r. pu_id_modulo (f r) = pu_id_modulo r"
  shows "select_progreso (update_progreso s i f) u m =
         map (\<lambda>r. if id_progreso r = i then f r else r) (select_progreso s u m)"
  unfolding select_progreso_def progreso_update filter_map
  by (rule arg_cong[where f="map _"], rule filter_cong) (auto simp: assms)

lemma select_insert:
  "select_progreso (snd (insert_progreso s row)) u m =
     select_progreso s u m @
       (if pu_id_usuario row = u \<and> pu_id_modulo row = m
        then [row\<lparr>id_progreso := next_id_progreso s\<rparr>] else [])"
  by (simp add: select_progreso_def progreso_insert)

lemma select_join:
  "m \<in> set (modulos s) \<Longrightarrow> select_progreso_join s u m = select_progreso s u m"
  unfolding select_progreso_join_def select_progreso_def filter_filter
  by (rule filter_cong) auto

lemma select_subset: "set (select_progreso s u m) \<subseteq> set (progreso_usuarios s)"
  by (auto simp: select_progreso_def)

lemma userType_ada: "userType ada = ''student''"
  by (simp add: ada_def normalize_def falsy_str_def)

lemma userType_bob: "userType bob = ''guest''"
  by (simp add: bob_def normalize_def falsy_str_def)

lemma userId_ada: "userId ada = Some 7"
  by (simp add: ada_def normalize_def truthy_id_def)

lemma guestId_bob: "guestId bob = Some 3"
  by (simp add: bob_def normalize_def)

section \<open>Guests and the progress routes\<close>

lemma guest_perform:
  "userType usr = ''guest'' \<Longrightarrow>
     perform usr now c s = (Response 200 EmptyList, s)
     \<or> perform usr now c s = (Response 200 GuestNotice, s)"
  by (cases c)
     (simp_all add: getProgress_def requireRegisteredUser_def upsertProgress_def
        upsert_select_def completeProgress_def complete_select_def)

text \<open>
  Claim C9. For a guest identity, any sequence of getProgress, upsertProgress and
  completeProgress calls leaves the store exactly as it was, and every reply is one of
  the two success replies of the guest branches: the empty list or the notice that
  progress is not saved.
\<close>

theorem guest_calls_never_write:
  "userType usr = ''guest'' \<Longrightarrow>
     snd (run_calls usr cs s) = s
     \<and> set (fst (run_calls usr cs s)) \<subseteq> {Response 200 EmptyList, Response 200 GuestNotice}"
proof (induction cs)
  case Nil
  then show ?case by simp
next
  case (Cons a cs)
  obtain now c where a: "a = (now, c)" by (cases a)
  from guest_perform[OF Cons.prems, of now c s] Cons.IH[OF Cons.prems] show ?case
    by (auto simp: a split: prod.splits)
qed

theorem guest_calls_never_write_witness:
  "userType bob = ''guest''
   \<and> snd (run_calls bob [(1, UpsertProgress 1 (Some 50) None None), (2, GetProgress 1),
                          (3, CompleteProgress 1 None)] store0) = store0
   \<and> set (fst (run_calls bob [(1, UpsertProgress 1 (Some 50) None None), (2, GetProgress 1),
                               (3, CompleteProgress 1 None)] store0))
       \<subseteq> {Response 200 EmptyList, Response 200 GuestNotice}"
  using guest_calls_never_write[OF userType_bob] userType_bob by blast

section \<open>Validation of the percentage\<close>

text \<open>
  Claim C8. For every percentage below 0 or above 100, upsertProgress by a registered
  identity (any identity that is not a guest) fails with the validation error, status
  400, and the store after the call is the store before it: no row is created and none
  is changed. A guest's call never reaches the validation; it is answered with the
  guest notice, and the store is unchanged as well.
\<close>

theorem upsert_out_of_range_rejected:
  "p < 0 \<or> 100 < p \<Longrightarrow>
     upsertProgress usr m (Some p) ts sc now s =
       (if userType usr = ''guest'' then Response 200 GuestNotice
        else Response 400 (Error Porcentaje_entre_0_y_100), s)"
  by (auto simp add: upsertProgress_def upsert_select_def lt_num_def gt_num_def)

theorem upsert_out_of_range_rejected_witness:
  "((150::int) < 0 \<or> 100 < (150::int))
   \<and> upsertProgress ada 1 (Some 150) (Some 5) (Some 5) 100 store1 =
       (Response 400 (Error Porcentaje_entre_0_y_100), store1)"
  using upsert_out_of_range_rejected[of 150 ada 1 "Some 5" "Some 5" 100 store1]
  by (simp add: userType_ada)

section \<open>Validation of a game result\<close>

text \<open>
  Claim C2, evaluated where the code departs from it: a result with a non-empty game
  type, score 5, level 1 and time played 0 is refused with status 400 and nothing is
  inserted, because the presence check tests \<open>!timePlayed\<close> and 0 is falsy.
\<close>

theorem recordGameResult_zero_time_refused:
  "recordGameResult ada (Some ''snake'') (Some 5) (Some 1) (Some 0) None 100 store0
     = (Response 400 (Error Datos_incompletos), store0)"
  by (simp add: recordGameResult_def falsy_num_def)

section \<open>The leaderboard limit\<close>

text \<open>
  Claim C6, evaluated where the code departs from it: the limit \<open>-5\<close> is neither
  replaced by the default nor raised to 1; the effective limit is \<open>-5\<close>.
\<close>

theorem leaderboard_limit_negative:
  "leaderboard_limit (Some ''-5'') = Num (- 5)"
  by (simp add: leaderboard_limit_def or_ten_def min_100_def parseInt_def stripSign_def
        stripPrefix_def isWhiteSpace_def isWhiteSpace2_def isRadixDigit_def digitValue_def
        toDouble_def)

lemmas limit_defs = leaderboard_limit_def or_ten_def min_100_def parseInt_def stripSign_def
  stripPrefix_def isWhiteSpace_def isWhiteSpace2_def isWhiteSpace3_def isRadixDigit_def
  digitValue_def toDouble_def

lemma leaderboard_limit_le_100:
  "leaderboard_limit q = NegInfinity \<or> (\<exists>n. leaderboard_limit q = Num n \<and> n \<le> 100)"
  by (cases "parseInt q") (simp_all add: leaderboard_limit_def or_ten_def min_100_def)

lemma leaderboard_limit_default:
  "parseInt q = NaN \<or> parseInt q = Num 0 \<Longrightarrow> leaderboard_limit q = Num 10"
  by (auto simp: leaderboard_limit_def or_ten_def min_100_def)

lemma leaderboard_limit_positive:
  "parseInt q = Num n \<Longrightarrow> 0 < n \<Longrightarrow> leaderboard_limit q = Num (min n 100)"
  by (simp add: leaderboard_limit_def or_ten_def min_100_def)

lemma leaderboard_limit_infinite:
  "parseInt q = PosInfinity \<Longrightarrow> leaderboard_limit q = Num 100"
  "parseInt q = NegInfinity \<Longrightarrow> leaderboard_limit q = NegInfinity"
  by (simp_all add: leaderboard_limit_def or_ten_def min_100_def)

lemma leaderboard_limit_examples:
  "leaderboard_limit None = Num 10"
  "leaderboard_limit (Some ''abc'') = Num 10"
  "leaderboard_limit (Some ''0'') = Num 10"
  "leaderboard_limit (Some ''2'') = Num 2"
  "leaderboard_limit (Some ''10'') = Num 10"
  "leaderboard_limit (Some ''500'') = Num 100"
  by (simp_all add: limit_defs)

lemma leaderboard_limit_no_break_space:
  "leaderboard_limit (Some [CHR 0xC2, CHR 0xA0, CHR ''5'']) = Num 5"
  by (simp add: limit_defs)

lemma bitLength_example: "bitLength 9007199254740993 = 54"
  by (simp add: bitLength.simps)

lemma leaderboard_limit_rounded:
  "leaderboard_limit (Some ''-9007199254740993'') = Num (- 9007199254740992)"
  by (simp add: limit_defs bitLength_example)

section \<open>Token verification\<close>

lemma header_old: "header_token (Some ''Bearer old'') = Some ''old''"
  by (simp add: header_token_def)

lemma header_good: "header_token (Some ''Bearer good'') = Some ''good''"
  by (simp add: header_token_def)

text \<open>
  Claim C3, as stated, at an expired token: with key \<open>k\<close> at time 20, the token that
  expired at 10 is correctly signed and the verifier reports it as expired, yet the
  middleware answers exactly as for the token signed with another key: status 403 with
  the one text for an invalid token. There is no separate reply for expiry.
\<close>

theorem authenticateToken_expired_counterexample:
  "jwt_verify tokens0 ''k'' 20 ''old'' = Inl TokenExpiredError
   \<and> jwt_verify tokens0 ''k'' 20 ''forged'' = Inl JsonWebTokenError
   \<and> authenticateToken (jwt_verify tokens0 ''k'' 20) (Some ''Bearer old'')
       = authenticateToken (jwt_verify tokens0 ''k'' 20) (Some ''Bearer forged'')
   \<and> authenticateToken (jwt_verify tokens0 ''k'' 20) (Some ''Bearer old'')
       = Rejected 403 Token_invalido"
  by (simp add: authenticateToken_def header_token_def jwt_verify_def tokens0_def
        falsy_str_def Let_def)

text \<open>
  Claim C3, amended. For every verifier: with no token in the header the middleware
  replies 401 (token required); with a token on which verification reports any error,
  expiry included, it replies 403 (token invalid); with a token that verifies it passes
  on the normalised identity.
\<close>

theorem authenticateToken_errors:
  "(falsy_str (header_token h) \<longrightarrow>
      authenticateToken verify h = Rejected 401 Token_de_acceso_requerido)
   \<and> (header_token h = Some tok \<and> tok \<noteq> [] \<and> verify tok = Inl err \<longrightarrow>
      authenticateToken verify h = Rejected 403 Token_invalido)
   \<and> (header_token h = Some tok \<and> tok \<noteq> [] \<and> verify tok = Inr decoded \<longrightarrow>
      authenticateToken verify h = Next (normalize decoded))"
  by (auto simp add: authenticateToken_def falsy_str_def Let_def split: option.splits)

theorem authenticateToken_errors_witness:
  "authenticateToken (jwt_verify tokens0 ''k'' 20) None = Rejected 401 Token_de_acceso_requerido
   \<and> authenticateToken (jwt_verify tokens0 ''k'' 20) (Some ''Bearer old'') = Rejected 403 Token_invalido
   \<and> authenticateToken (jwt_verify tokens0 ''k'' 20) (Some ''Bearer good'') = Next ada"
proof -
  have v1: "jwt_verify tokens0 ''k'' 20 ''old'' = Inl TokenExpiredError"
    by (simp add: jwt_verify_def tokens0_def Let_def)
  have v2: "jwt_verify tokens0 ''k'' 20 ''good'' = Inr \<lparr> c_userId = Some 7, c_guestId = None, c_sessionId = None,
                     c_email = Some ''a@x.com'', c_username = None,
                     c_userType = Some ''student'' \<rparr>"
    by (simp add: jwt_verify_def tokens0_def Let_def)
  have m: "falsy_str (header_token None)" by (simp add: header_token_def falsy_str_def)
  show ?thesis
    using authenticateToken_errors[of None "jwt_verify tokens0 ''k'' 20"] m
      authenticateToken_errors[of "Some ''Bearer old''" "jwt_verify tokens0 ''k'' 20" "''old''" TokenExpiredError] v1 header_old
      authenticateToken_errors[of "Some ''Bearer good''" "jwt_verify tokens0 ''k'' 20" "''good''" _ "\<lparr> c_userId = Some 7, c_guestId = None, c_sessionId = None,
                     c_email = Some ''a@x.com'', c_username = None,
                     c_userType = Some ''student'' \<rparr>"] v2 header_good
    by (simp add: ada_def)
qed

section \<open>The identity columns of a game result\<close>

text \<open>
  Claim C5. Whatever recordGameResult is called with, either nothing is stored and the
  reply is not 201, or exactly one row is appended and exactly one of its two identity
  columns is set: for a guest the guest session id (and the user id is null), otherwise
  the user id (and the guest session id is null). An identity for which neither column
  would be set never gets a row.
\<close>

theorem recordGameResult_one_identity_column:
  "recordGameResult usr gameType gscore levelReached timePlayed metadata now s = (reply, s') \<Longrightarrow>
     (status reply \<noteq> 201 \<and> s' = s)
     \<or> (\<exists>r. status reply = 201
            \<and> resultados_juegos s' = resultados_juegos s @ [r]
            \<and> (rj_id_usuario r = None) \<noteq> (rj_id_sesion_invitado r = None)
            \<and> (if userType usr = ''guest''
                then rj_id_usuario r = None \<and> rj_id_sesion_invitado r = guestId usr
                else rj_id_sesion_invitado r = None \<and> rj_id_usuario r = userId usr))"
  unfolding recordGameResult_def
  by (auto simp: Let_def insert_resultado_def column_of_def bind_of_def split: if_splits option.splits prod.splits bind.splits)

lemma record_bob:
  "recordGameResult bob (Some ''snake'') (Some 0) (Some 1) (Some 9) None 100 store0
     = (Response 201 (ResultSaved 1 0 1),
        store0\<lparr> resultados_juegos :=
                   [\<lparr> id_resultado = 1, rj_id_usuario = None, rj_id_sesion_invitado = Some 3,
                      tipo_juego = ''snake'', rj_puntuacion = 0, nivel_alcanzado = 1,
                      tiempo_jugado = 9, metadatos = None, fecha_juego = 100 \<rparr>],
                 next_id_resultado := 2 \<rparr>)"
  by (simp add: recordGameResult_def falsy_str_def falsy_num_def lt_num_def userType_bob
        guestId_bob bind_of_def column_of_def insert_resultado_def store0_def Let_def)

theorem recordGameResult_one_identity_column_witness:
  "recordGameResult bob (Some ''snake'') (Some 0) (Some 1) (Some 9) None 100 store0
     = (Response 201 (ResultSaved 1 0 1),
        store0\<lparr> resultados_juegos :=
                   [\<lparr> id_resultado = 1, rj_id_usuario = None, rj_id_sesion_invitado = Some 3,
                      tipo_juego = ''snake'', rj_puntuacion = 0, nivel_alcanzado = 1,
                      tiempo_jugado = 9, metadatos = None, fecha_juego = 100 \<rparr>],
                 next_id_resultado := 2 \<rparr>)
   \<and> (\<exists>r. resultados_juegos
             (store0\<lparr> resultados_juegos :=
                   [\<lparr> id_resultado = 1, rj_id_usuario = None, rj_id_sesion_invitado = Some 3,
                      tipo_juego = ''snake'', rj_puntuacion = 0, nivel_alcanzado = 1,
                      tiempo_jugado = 9, metadatos = None, fecha_juego = 100 \<rparr>],
                 next_id_resultado := 2 \<rparr>) = resultados_juegos store0 @ [r]
          \<and> rj_id_usuario r = None \<and> rj_id_sesion_invitado r = Some 3)"
  using recordGameResult_one_identity_column[OF record_bob] record_bob
  by (auto simp: userType_bob guestId_bob)

lemma recordGameResult_rejects_neither:
  "(userType usr = ''guest'' \<and> guestId usr = None) \<or> (userType usr \<noteq> ''guest'' \<and> userId usr = None) \<Longrightarrow>
   recordGameResult usr gameType gscore levelReached timePlayed metadata now s = (reply, s') \<Longrightarrow> s' = s \<and> status reply \<noteq> 201"
  unfolding recordGameResult_def
  by (auto simp: Let_def column_of_def bind_of_def split: if_splits option.splits)

lemma recordGameResult_accepts:
  assumes "g \<noteq> []" "0 \<le> sc" "1 \<le> lv" "0 < tp"
    and "if userType usr = ''guest'' then guestId usr \<noteq> None else userId usr \<noteq> None"
  shows "\<exists>r. recordGameResult usr (Some g) (Some sc) (Some lv) (Some tp) metadata now s
           = (Response 201 (ResultSaved (next_id_resultado s) sc lv),
              s\<lparr> resultados_juegos := resultados_juegos s @ [r],
                 next_id_resultado := Suc (next_id_resultado s) \<rparr>)"
  using assms
  by (auto simp: recordGameResult_def falsy_str_def falsy_num_def lt_num_def bind_of_def
        column_of_def insert_resultado_def Let_def split: if_splits)

lemma recordGameResult_refuses:
  assumes "g = [] \<or> sc < 0 \<or> lv < 1 \<or> tp < 0"
  shows "\<exists>e. recordGameResult usr (Some g) (Some sc) (Some lv) (Some tp) metadata now s
           = (Response 400 (Error e), s)"
  using assms
  by (auto simp: recordGameResult_def falsy_str_def falsy_num_def lt_num_def)

lemma recordGameResult_zero_score_accepted:
  "fst (recordGameResult ada (Some ''snake'') (Some 0) (Some 1) (Some 9) None 100 store0)
     = Response 201 (ResultSaved 1 0 1)"
  by (simp add: recordGameResult_def falsy_str_def falsy_num_def lt_num_def userType_ada
        userId_ada bind_of_def column_of_def insert_resultado_def store0_def Let_def)

section \<open>Order and rank of the leaderboard\<close>

lemma row_key_select_row: "row_key (select_row s r) = order_key r"
  by (simp add: row_key_def select_row_def order_key_def Let_def)

lemma sorted_select_leaderboard: "sorted (map row_key (select_leaderboard s g n))"
proof -
  have "sorted (map order_key (sort_key order_key (filter (\<lambda>r. tipo_juego r = g) (resultados_juegos s))))"
    by (rule sorted_sort_key)
  then have "sorted (take n (map order_key (sort_key order_key (filter (\<lambda>r. tipo_juego r = g) (resultados_juegos s)))))"
    by (rule sorted_wrt_take)
  then show ?thesis
    by (simp add: select_leaderboard_def take_map o_def row_key_select_row)
qed

lemma with_rank_fields:
  "map (\<lambda>e. (score e, level_reached e, time_played e)) (with_rank i rows)
     = map (\<lambda>e. (score e, level_reached e, time_played e)) rows"
  by (induction rows arbitrary: i) simp_all

lemma set_with_rank:
  "b \<in> set (with_rank i rows) \<Longrightarrow> \<exists>e \<in> set rows. score b = score e \<and> level_reached b = level_reached e \<and> time_played b = time_played e"
  by (induction rows arbitrary: i) auto

lemma sorted_with_rank:
  "sorted (map row_key rows) \<Longrightarrow> sorted_wrt ranks_before (with_rank i rows)"
proof (induction rows arbitrary: i)
  case Nil
  then show ?case by simp
next
  case (Cons e es)
  have "ranks_before \<lparr> score = score e, level_reached = level_reached e, time_played = time_played e,
       played_at = played_at e, player_name = player_name e, player_type = player_type e,
       rank = i + 1 \<rparr> b" if "b \<in> set (with_rank (Suc i) es)" for b
  proof -
    from set_with_rank[OF that] obtain x where x: "x \<in> set es" "score b = score x" "level_reached b = level_reached x" "time_played b = time_played x"
      by blast
    from Cons.prems x(1) have "row_key e \<le> row_key x" by auto
    then show ?thesis using x(2-4)
      by (auto simp: row_key_def ranks_before_def less_eq_prod_def less_prod_def)
  qed
  with Cons show ?case by simp
qed

lemma rank_with_rank: "map rank (with_rank i rows) = map Suc [i ..< i + length rows]"
proof (induction rows arbitrary: i)
  case Nil
  then show ?case by simp
next
  case (Cons e es)
  have len: "i + length (e # es) = Suc i + length es"
    by simp
  have "[i ..< Suc i + length es] = i # [Suc i ..< Suc i + length es]"
    by (rule upt_conv_Cons) simp
  then have "[i ..< i + length (e # es)] = i # [Suc i ..< Suc i + length es]"
    by (simp only: len)
  then have "map Suc [i ..< i + length (e # es)] = Suc i # map Suc [Suc i ..< Suc i + length es]"
    by (simp only: list.map)
  also have "\<dots> = map rank (with_rank i (e # es))"
    by (simp only: with_rank.simps list.map Cons.IH[of "Suc i"]) simp
  finally show ?case by (rule sym)
qed

lemma length_with_rank: "length (with_rank i rows) = length rows"
  by (induction rows arbitrary: i) simp_all

lemma length_select_leaderboard: "length (select_leaderboard s g n) \<le> n"
  by (simp add: select_leaderboard_def)

lemma insort_map: "map f (insort_key f x xs) = insort (f x) (map f xs)"
  by (induction xs) simp_all

lemma sort_map: "map f (sort_key f xs) = sort (map f xs)"
  by (induction xs) (simp_all add: insort_map)

lemma row_of_with_rank: "map row_of (with_rank i rows) = rows"
  by (induction rows arbitrary: i) (simp_all add: row_of_def)

lemma keys_with_rank:
  "map (\<lambda>e. (- score e, - level_reached e, time_played e)) (with_rank i rows)
     = map row_key rows"
  by (induction rows arbitrary: i) (simp_all add: row_key_def)

lemma keys_select_leaderboard:
  "map row_key (select_leaderboard s g n)
     = take n (sort (map (\<lambda>r. (- rj_puntuacion r, - nivel_alcanzado r, tiempo_jugado r))
                      (filter (\<lambda>r. tipo_juego r = g) (resultados_juegos s))))"
proof -
  have "map row_key (select_leaderboard s g n)
          = take n (map order_key (sort_key order_key
                      (filter (\<lambda>r. tipo_juego r = g) (resultados_juegos s))))"
    by (simp add: select_leaderboard_def take_map o_def row_key_select_row)
  also have "\<dots> = take n (sort (map order_key
                      (filter (\<lambda>r. tipo_juego r = g) (resultados_juegos s))))"
    by (simp only: sort_map)
  finally show ?thesis
    unfolding order_key_def .
qed

lemma rows_select_leaderboard:
  "select_leaderboard s g n
     = map (select_row s)
         (take n (sort_key (\<lambda>r. (- rj_puntuacion r, - nivel_alcanzado r, tiempo_jugado r))
                    (filter (\<lambda>r. tipo_juego r = g) (resultados_juegos s))))"
proof -
  have "order_key = (\<lambda>r. (- rj_puntuacion r, - nivel_alcanzado r, tiempo_jugado r))"
    by (rule ext) (simp add: order_key_def)
  then show ?thesis by (simp add: select_leaderboard_def)
qed

lemma getLeaderboard_natural:
  "leaderboard_limit q = Num (int n) \<Longrightarrow>
     getLeaderboard other s gameType q =
       Response 200 (LeaderboardPage gameType (length (with_rank 0 (select_leaderboard s gameType n)))
                       (with_rank 0 (select_leaderboard s gameType n)))"
  by (simp add: getLeaderboard_def Let_def length_with_rank)

lemma leaderboard_example:
  "map (\<lambda>e. (rank e, score e, level_reached e, time_played e))
     (leaderboard_of (getLeaderboard other store_games ''snake'' (Some ''10'')))
   = [(1, 15, 1, 99), (2, 10, 2, 30), (3, 10, 2, 50)]"
  by (simp add: getLeaderboard_def leaderboard_limit_examples leaderboard_of_def
        select_leaderboard_def store_games_def store0_def game_row_def order_key_def
        select_row_def left_join_def Let_def)

lemma leaderboard_at_most_100:
  assumes "leaderboard_limit q = Num (int n)"
  shows "length (leaderboard_of (getLeaderboard other s gameType q)) \<le> 100"
proof -
  from leaderboard_limit_le_100[of q] assms have "n \<le> 100" by auto
  with length_select_leaderboard[of s gameType n]
  show ?thesis
    by (simp add: getLeaderboard_natural[OF assms] leaderboard_of_def length_with_rank)
qed

lemma leaderboard_negative_limit_refused:
  "getLeaderboard None s gameType (Some ''-5'') = Response 500 (Error Error_interno_del_servidor)"
  by (simp add: getLeaderboard_def limit_defs)

text \<open>
  Claim C7. Whenever the effective limit is a natural number \<open>n\<close>, the leaderboard
  reply lists exactly the first \<open>n\<close> of the stored results of the game type, taken in
  the order score descending, then level descending, then time ascending: the rows of
  the entries are those results' rows in that order, and their keys are the \<open>n\<close> best
  keys stored. The entries are in that order, and their ranks are 1, 2, ... by position,
  so entries equal in all three fields still get distinct consecutive ranks. For the
  stored results (10,2,50), (10,2,30), (15,1,99) and limit 10 the reply lists (15,1,99)
  with rank 1, (10,2,30) with rank 2 and (10,2,50) with rank 3.
\<close>

theorem getLeaderboard_order_and_rank:
  "leaderboard_limit q = Num (int n) \<Longrightarrow>
     (\<exists>es. getLeaderboard other s gameType q
              = Response 200 (LeaderboardPage gameType (length es) es)
          \<and> map row_of es
              = map (select_row s)
                  (take n (sort_key (\<lambda>r. (- rj_puntuacion r, - nivel_alcanzado r, tiempo_jugado r))
                             (filter (\<lambda>r. tipo_juego r = gameType) (resultados_juegos s))))
          \<and> map (\<lambda>e. (- score e, - level_reached e, time_played e)) es
              = take n (sort (map (\<lambda>r. (- rj_puntuacion r, - nivel_alcanzado r, tiempo_jugado r))
                               (filter (\<lambda>r. tipo_juego r = gameType) (resultados_juegos s))))
          \<and> sorted_wrt ranks_before es
          \<and> map rank es = [1 ..< Suc (length es)])
     \<and> map (\<lambda>e. (rank e, score e, level_reached e, time_played e))
         (leaderboard_of (getLeaderboard other store_games ''snake'' (Some ''10'')))
       = [(1, 15, 1, 99), (2, 10, 2, 30), (3, 10, 2, 50)]"
proof (intro conjI)
  assume limit: "leaderboard_limit q = Num (int n)"
  let ?es = "with_rank 0 (select_leaderboard s gameType n)"
  have reply: "getLeaderboard other s gameType q
                 = Response 200 (LeaderboardPage gameType (length ?es) ?es)"
    by (rule getLeaderboard_natural[OF limit])
  have rows: "map row_of ?es
              = map (select_row s)
                  (take n (sort_key (\<lambda>r. (- rj_puntuacion r, - nivel_alcanzado r, tiempo_jugado r))
                             (filter (\<lambda>r. tipo_juego r = gameType) (resultados_juegos s))))"
    by (simp only: row_of_with_rank rows_select_leaderboard)
  have keys: "map (\<lambda>e. (- score e, - level_reached e, time_played e)) ?es
              = take n (sort (map (\<lambda>r. (- rj_puntuacion r, - nivel_alcanzado r, tiempo_jugado r))
                               (filter (\<lambda>r. tipo_juego r = gameType) (resultados_juegos s))))"
    by (simp only: keys_with_rank keys_select_leaderboard)
  have ordered: "sorted_wrt ranks_before ?es"
    by (rule sorted_with_rank) (rule sorted_select_leaderboard)
  have ranks: "map rank ?es = [1 ..< Suc (length ?es)]"
    by (simp add: rank_with_rank length_with_rank map_Suc_upt del: upt_Suc)
  show "\<exists>es. getLeaderboard other s gameType q
              = Response 200 (LeaderboardPage gameType (length es) es)
          \<and> map row_of es
              = map (select_row s)
                  (take n (sort_key (\<lambda>r. (- rj_puntuacion r, - nivel_alcanzado r, tiempo_jugado r))
                             (filter (\<lambda>r. tipo_juego r = gameType) (resultados_juegos s))))
          \<and> map (\<lambda>e. (- score e, - level_reached e, time_played e)) es
              = take n (sort (map (\<lambda>r. (- rj_puntuacion r, - nivel_alcanzado r, tiempo_jugado r))
                               (filter (\<lambda>r. tipo_juego r = gameType) (resultados_juegos s))))
          \<and> sorted_wrt ranks_before es
          \<and> map rank es = [1 ..< Suc (length es)]"
    by (rule exI[of _ ?es]) (intro conjI reply rows keys ordered ranks)
next
  show "map (\<lambda>e. (rank e, score e, level_reached e, time_played e))
         (leaderboard_of (getLeaderboard other store_games ''snake'' (Some ''10'')))
       = [(1, 15, 1, 99), (2, 10, 2, 30), (3, 10, 2, 50)]"
    by (rule leaderboard_example)
qed

lemma best_two_keys:
  "take 2 (sort (map (\<lambda>r. (- rj_puntuacion r, - nivel_alcanzado r, tiempo_jugado r))
                   (filter (\<lambda>r. tipo_juego r = ''snake'') (resultados_juegos store_games))))
     = [(- 15, - 1, 99), (- 10, - 2, 30)]"
  by (simp add: store_games_def store0_def game_row_def)

theorem getLeaderboard_order_and_rank_witness:
  "leaderboard_limit (Some ''2'') = Num (int 2)
   \<and> (\<exists>es. getLeaderboard None store_games ''snake'' (Some ''2'')
              = Response 200 (LeaderboardPage ''snake'' (length es) es)
          \<and> map (\<lambda>e. (- score e, - level_reached e, time_played e)) es
              = [(- 15, - 1, 99), (- 10, - 2, 30)]
          \<and> sorted_wrt ranks_before es
          \<and> map rank es = [1 ..< Suc (length es)])"
proof -
  have limit: "leaderboard_limit (Some ''2'') = Num (int 2)"
    by (simp add: leaderboard_limit_examples)
  from getLeaderboard_order_and_rank[OF limit, of None store_games "''snake''"]
  obtain es where
    reply: "getLeaderboard None store_games ''snake'' (Some ''2'')
       = Response 200 (LeaderboardPage ''snake'' (length es) es)"
    and keys: "map (\<lambda>e. (- score e, - level_reached e, time_played e)) es
       = take 2 (sort (map (\<lambda>r. (- rj_puntuacion r, - nivel_alcanzado r, tiempo_jugado r))
                   (filter (\<lambda>r. tipo_juego r = ''snake'') (resultados_juegos store_games))))"
    and ordered: "sorted_wrt ranks_before es"
    and ranks: "map rank es = [1 ..< Suc (length es)]"
    by blast
  from keys have best: "map (\<lambda>e. (- score e, - level_reached e, time_played e)) es
       = [(- 15, - 1, 99), (- 10, - 2, 30)]"
    by (simp only: best_two_keys)
  show ?thesis
    by (intro conjI exI[of _ es] limit reply best ordered ranks)
qed

section \<open>What a write stores\<close>

lemma ge_num_or_zero: "ge_num cp 100 = (100 \<le> or_zero cp)"
  by (simp add: ge_num_def or_zero_def split: option.splits)

lemma in_sync_upsert_data: "in_sync (upsert_data cp ts sc now r)"
  by (simp add: in_sync_def upsert_data_def ge_num_or_zero)

lemma in_sync_complete_data: "in_sync (complete_data sc now r)"
  by (simp add: in_sync_def complete_data_def)

lemma upsert_write_in_sync:
  "list_all in_sync (progreso_usuarios s) \<Longrightarrow>
     list_all in_sync (progreso_usuarios (upsert_write u m cp ts sc now ex s))"
proof (cases ex)
  case Nil
  assume "list_all in_sync (progreso_usuarios s)"
  then show ?thesis
    by (simp add: Nil upsert_write_def progreso_insert in_sync_def ge_num_or_zero)
next
  case (Cons i rest)
  assume "list_all in_sync (progreso_usuarios s)"
  then show ?thesis
    by (auto simp: Cons upsert_write_def progreso_update list_all_iff in_sync_upsert_data)
qed

lemma complete_write_in_sync:
  "list_all in_sync (progreso_usuarios s) \<Longrightarrow>
     list_all in_sync (progreso_usuarios (complete_write u m sc now ex s))"
proof (cases ex)
  case Nil
  assume "list_all in_sync (progreso_usuarios s)"
  then show ?thesis
    by (simp add: Nil complete_write_def progreso_insert in_sync_def)
next
  case (Cons i rest)
  assume "list_all in_sync (progreso_usuarios s)"
  then show ?thesis
    by (auto simp: Cons complete_write_def progreso_update list_all_iff in_sync_complete_data)
qed

lemma upsert_select_Inr:
  "upsert_select usr m cp ts sc s = Inr (u, ex) \<Longrightarrow>
     userType usr \<noteq> ''guest'' \<and> userId usr = Some u \<and> m \<in> set (modulos s)
     \<and> ex = map id_progreso (select_progreso s u m)"
  by (auto simp: upsert_select_def findById_modulos_def split: if_splits option.splits)

lemma upsert_select_Inl:
  "upsert_select usr m cp ts sc s = Inl reply \<Longrightarrow> reply \<noteq> Response 200 (ProgressUpdated row)"
  by (auto simp: upsert_select_def split: if_splits option.splits)

lemma complete_select_Inr:
  "complete_select usr m s = Inr (u, ex) \<Longrightarrow>
     userType usr \<noteq> ''guest'' \<and> userId usr = Some u \<and> m \<in> set (modulos s)
     \<and> ex = map id_progreso (select_progreso s u m)"
  by (auto simp: complete_select_def findById_modulos_def split: if_splits option.splits)

lemma complete_select_Inl:
  "complete_select usr m s = Inl reply \<Longrightarrow> reply \<noteq> Response 200 (ModuleCompleted row)"
  by (auto simp: complete_select_def split: if_splits option.splits)

lemma modulos_upsert_write: "modulos (upsert_write u m cp ts sc now ex s) = modulos s"
  by (cases ex) (simp_all add: upsert_write_def modulos_insert_progreso modulos_update_progreso)

lemma modulos_complete_write: "modulos (complete_write u m sc now ex s) = modulos s"
  by (cases ex) (simp_all add: complete_write_def modulos_insert_progreso modulos_update_progreso)

lemma select_upsert_write:
  assumes "ex = map id_progreso (select_progreso s u m)"
  shows "select_progreso (upsert_write u m cp ts sc now ex s) u m =
     (case select_progreso s u m of
        [] \<Rightarrow> [\<lparr> id_progreso = next_id_progreso s, pu_id_usuario = u, pu_id_modulo = m,
                   porcentaje_completado = or_zero cp, tiempo_empleado = or_zero ts,
                   esta_completado = ge_num cp 100, pu_puntuacion = or_zero sc,
                   ultimo_acceso = Some now \<rparr>]
      | r0 # rest \<Rightarrow> map (\<lambda>r. if id_progreso r = id_progreso r0 then upsert_data cp ts sc now r else r) (r0 # rest))"
proof (cases "select_progreso s u m")
  case Nil
  then show ?thesis using assms by (simp add: upsert_write_def select_insert)
next
  case (Cons r0 rest)
  then have "upsert_write u m cp ts sc now ex s = update_progreso s (id_progreso r0) (upsert_data cp ts sc now)"
    using assms by (simp add: upsert_write_def)
  then show ?thesis using Cons by (simp only: select_update[OF upsert_data_keys(1,2)] list.case)
qed

lemma select_complete_write:
  assumes "ex = map id_progreso (select_progreso s u m)"
  shows "select_progreso (complete_write u m sc now ex s) u m =
     (case select_progreso s u m of
        [] \<Rightarrow> [\<lparr> id_progreso = next_id_progreso s, pu_id_usuario = u, pu_id_modulo = m,
                   porcentaje_completado = 100, tiempo_empleado = 0,
                   esta_completado = True, pu_puntuacion = or_zero sc,
                   ultimo_acceso = Some now \<rparr>]
      | r0 # rest \<Rightarrow> map (\<lambda>r. if id_progreso r = id_progreso r0 then complete_data sc now r else r) (r0 # rest))"
proof (cases "select_progreso s u m")
  case Nil
  then show ?thesis using assms by (simp add: complete_write_def select_insert)
next
  case (Cons r0 rest)
  then have "complete_write u m sc now ex s = update_progreso s (id_progreso r0) (complete_data sc now)"
    using assms by (simp add: complete_write_def)
  then show ?thesis using Cons by (simp only: select_update[OF complete_data_keys(1,2)] list.case)
qed

lemma upsert_reply_row:
  assumes m: "m \<in> set (modulos s)" and ex: "ex = map id_progreso (select_progreso s u m)"
  shows "\<exists>r. first_row (select_progreso_join (upsert_write u m cp ts sc now ex s) u m) = Some r
     \<and> r \<in> set (progreso_usuarios (upsert_write u m cp ts sc now ex s))
     \<and> porcentaje_completado r = or_zero cp \<and> tiempo_empleado r = or_zero ts
     \<and> pu_puntuacion r = or_zero sc \<and> esta_completado r = ge_num cp 100"
proof -
  let ?s' = "upsert_write u m cp ts sc now ex s"
  have j: "select_progreso_join ?s' u m = select_progreso ?s' u m"
    by (rule select_join) (simp add: modulos_upsert_write m)
  obtain r where r: "first_row (select_progreso ?s' u m) = Some r"
     "porcentaje_completado r = or_zero cp" "tiempo_empleado r = or_zero ts"
     "pu_puntuacion r = or_zero sc" "esta_completado r = ge_num cp 100"
    by (cases "select_progreso s u m")
       (auto simp: select_upsert_write[OF ex] first_row_def upsert_data_def)
  from r(1) have "r \<in> set (select_progreso ?s' u m)"
    by (auto simp: first_row_def split: list.splits)
  with select_subset have "r \<in> set (progreso_usuarios ?s')" by blast
  with r j show ?thesis by auto
qed

lemma complete_reply_row:
  assumes m: "m \<in> set (modulos s)" and ex: "ex = map id_progreso (select_progreso s u m)"
  shows "\<exists>r. first_row (select_progreso_join (complete_write u m sc now ex s) u m) = Some r
     \<and> r \<in> set (progreso_usuarios (complete_write u m sc now ex s))
     \<and> porcentaje_completado r = 100 \<and> esta_completado r \<and> pu_puntuacion r = or_zero sc"
proof -
  let ?s' = "complete_write u m sc now ex s"
  have j: "select_progreso_join ?s' u m = select_progreso ?s' u m"
    by (rule select_join) (simp add: modulos_complete_write m)
  obtain r where r: "first_row (select_progreso ?s' u m) = Some r"
     "porcentaje_completado r = 100" "esta_completado r" "pu_puntuacion r = or_zero sc"
    by (cases "select_progreso s u m")
       (auto simp: select_complete_write[OF ex] first_row_def complete_data_def)
  from r(1) have "r \<in> set (select_progreso ?s' u m)"
    by (auto simp: first_row_def split: list.splits)
  with select_subset have "r \<in> set (progreso_usuarios ?s')" by blast
  with r j show ?thesis by auto
qed

lemma upsertProgress_success:
  assumes ok: "fst (upsertProgress usr m cp ts sc now s) = Response 200 (ProgressUpdated row)"
  shows "\<exists>u. userType usr \<noteq> ''guest'' \<and> userId usr = Some u \<and> m \<in> set (modulos s)
    \<and> snd (upsertProgress usr m cp ts sc now s)
       = upsert_write u m cp ts sc now (map id_progreso (select_progreso s u m)) s
    \<and> row = first_row (select_progreso_join (snd (upsertProgress usr m cp ts sc now s)) u m)"
proof (cases "upsert_select usr m cp ts sc s")
  case (Inl reply)
  then have "fst (upsertProgress usr m cp ts sc now s) = reply"
    by (simp add: upsertProgress_def)
  with ok upsert_select_Inl[OF Inl, of row] show ?thesis by simp
next
  case (Inr p)
  obtain u ex where sel: "upsert_select usr m cp ts sc s = Inr (u, ex)"
    using Inr by (cases p) simp
  note facts = upsert_select_Inr[OF sel]
  have run: "upsertProgress usr m cp ts sc now s =
      (upsert_reply u m (upsert_write u m cp ts sc now ex s), upsert_write u m cp ts sc now ex s)"
    by (simp add: upsertProgress_def sel Let_def)
  from ok have "row = first_row (select_progreso_join (upsert_write u m cp ts sc now ex s) u m)"
    by (simp add: run upsert_reply_def)
  with facts show ?thesis by (simp add: run)
qed

lemma completeProgress_success:
  assumes ok: "fst (completeProgress usr m sc now s) = Response 200 (ModuleCompleted row)"
  shows "\<exists>u. userType usr \<noteq> ''guest'' \<and> userId usr = Some u \<and> m \<in> set (modulos s)
    \<and> snd (completeProgress usr m sc now s)
       = complete_write u m sc now (map id_progreso (select_progreso s u m)) s
    \<and> row = first_row (select_progreso_join (snd (completeProgress usr m sc now s)) u m)"
proof (cases "complete_select usr m s")
  case (Inl reply)
  then have "fst (completeProgress usr m sc now s) = reply"
    by (simp add: completeProgress_def)
  with ok complete_select_Inl[OF Inl, of row] show ?thesis by simp
next
  case (Inr p)
  obtain u ex where sel: "complete_select usr m s = Inr (u, ex)"
    using Inr by (cases p) simp
  note facts = complete_select_Inr[OF sel]
  have run: "completeProgress usr m sc now s =
      (complete_reply u m (complete_write u m sc now ex s), complete_write u m sc now ex s)"
    by (simp add: completeProgress_def sel Let_def)
  from ok have "row = first_row (select_progreso_join (complete_write u m sc now ex s) u m)"
    by (simp add: run complete_reply_def)
  with facts show ?thesis by (simp add: run)
qed

lemma upsertProgress_in_sync:
  "list_all in_sync (progreso_usuarios s) \<Longrightarrow>
     list_all in_sync (progreso_usuarios (snd (upsertProgress usr m cp ts sc now s)))"
  by (cases "upsert_select usr m cp ts sc s")
     (simp_all add: upsertProgress_def Let_def upsert_write_in_sync split: prod.splits)

lemma completeProgress_in_sync:
  "list_all in_sync (progreso_usuarios s) \<Longrightarrow>
     list_all in_sync (progreso_usuarios (snd (completeProgress usr m sc now s)))"
  by (cases "complete_select usr m s")
     (simp_all add: completeProgress_def Let_def complete_write_in_sync split: prod.splits)

lemmas eval_defs = upsertProgress_def upsert_select_def upsert_write_def upsert_reply_def
  completeProgress_def complete_select_def complete_write_def complete_reply_def
  select_progreso_def select_progreso_join_def findById_modulos_def update_progreso_def
  insert_progreso_def upsert_data_def complete_data_def first_row_def
  store0_def store1_def userType_ada userId_ada lt_num_def gt_num_def ge_num_def or_zero_def Let_def

lemma upsert_ada_100:
  "fst (upsertProgress ada 1 (Some 100) (Some 60) (Some 9) 200 store1)
     = Response 200 (ProgressUpdated (Some row_done))"
  by (simp add: eval_defs row_done_def)

lemma complete_ada:
  "fst (completeProgress ada 1 (Some 9) 200 store1)
     = Response 200 (ModuleCompleted (Some (row_done\<lparr> tiempo_empleado := 30 \<rparr>)))"
  by (simp add: eval_defs row_done_def)

lemma store1_in_sync: "list_all in_sync (progreso_usuarios store1)"
  by (simp add: store1_def in_sync_def)

section \<open>The completed flag\<close>

text \<open>
  Claim C4. When upsertProgress with a percentage between 0 and 100 answers with the
  updated row, that row is in the store with the submitted percentage and with the
  completed flag equal to (percentage at least 100), that is, true exactly at 100. When
  completeProgress answers with the completed row, that row is in the store with
  percentage 100 and the flag set. And if every stored row has its flag in agreement
  with its percentage before a call of either operation, with any arguments, then so
  has every stored row after it.
\<close>

theorem completed_flag_in_sync:
  "(0 \<le> p \<and> p \<le> 100
      \<and> fst (upsertProgress usr m (Some p) ts sc now s) = Response 200 (ProgressUpdated row) \<longrightarrow>
      (\<exists>r. row = Some r
          \<and> r \<in> set (progreso_usuarios (snd (upsertProgress usr m (Some p) ts sc now s)))
          \<and> porcentaje_completado r = p
          \<and> esta_completado r = (100 \<le> p)
          \<and> esta_completado r = (p = 100)))
   \<and> (fst (completeProgress usr m sc now s) = Response 200 (ModuleCompleted row') \<longrightarrow>
      (\<exists>r. row' = Some r
          \<and> r \<in> set (progreso_usuarios (snd (completeProgress usr m sc now s)))
          \<and> porcentaje_completado r = 100
          \<and> esta_completado r))
   \<and> (list_all in_sync (progreso_usuarios s) \<longrightarrow>
        list_all in_sync (progreso_usuarios (snd (upsertProgress usr m cp ts sc now s)))
      \<and> list_all in_sync (progreso_usuarios (snd (completeProgress usr m sc now s))))"
proof (intro conjI impI)
  assume a: "0 \<le> p \<and> p \<le> 100
      \<and> fst (upsertProgress usr m (Some p) ts sc now s) = Response 200 (ProgressUpdated row)"
  then obtain u where u: "m \<in> set (modulos s)"
    "snd (upsertProgress usr m (Some p) ts sc now s)
       = upsert_write u m (Some p) ts sc now (map id_progreso (select_progreso s u m)) s"
    "row = first_row (select_progreso_join (snd (upsertProgress usr m (Some p) ts sc now s)) u m)"
    using upsertProgress_success[of usr m "Some p" ts sc now s row] by blast
  from upsert_reply_row[OF u(1) refl, of u "Some p" ts sc now] u(2,3) a
  show "\<exists>r. row = Some r
          \<and> r \<in> set (progreso_usuarios (snd (upsertProgress usr m (Some p) ts sc now s)))
          \<and> porcentaje_completado r = p
          \<and> esta_completado r = (100 \<le> p)
          \<and> esta_completado r = (p = 100)"
    by (auto simp: or_zero_def ge_num_def)
next
  assume a: "fst (completeProgress usr m sc now s) = Response 200 (ModuleCompleted row')"
  then obtain u where u: "m \<in> set (modulos s)"
    "snd (completeProgress usr m sc now s)
       = complete_write u m sc now (map id_progreso (select_progreso s u m)) s"
    "row' = first_row (select_progreso_join (snd (completeProgress usr m sc now s)) u m)"
    using completeProgress_success[of usr m sc now s row'] by blast
  from complete_reply_row[OF u(1) refl, of u sc now] u(2,3)
  show "\<exists>r. row' = Some r
          \<and> r \<in> set (progreso_usuarios (snd (completeProgress usr m sc now s)))
          \<and> porcentaje_completado r = 100
          \<and> esta_completado r"
    by auto
next
  assume "list_all in_sync (progreso_usuarios s)"
  then show "list_all in_sync (progreso_usuarios (snd (upsertProgress usr m cp ts sc now s)))"
    by (rule upsertProgress_in_sync)
next
  assume "list_all in_sync (progreso_usuarios s)"
  then show "list_all in_sync (progreso_usuarios (snd (completeProgress usr m sc now s)))"
    by (rule completeProgress_in_sync)
qed

theorem completed_flag_in_sync_witness:
  "(0::int) \<le> 100 \<and> (100::int) \<le> 100
   \<and> fst (upsertProgress ada 1 (Some 100) (Some 60) (Some 9) 200 store1)
        = Response 200 (ProgressUpdated (Some row_done))
   \<and> row_done \<in> set (progreso_usuarios (snd (upsertProgress ada 1 (Some 100) (Some 60) (Some 9) 200 store1)))
   \<and> porcentaje_completado row_done = 100 \<and> esta_completado row_done
   \<and> fst (completeProgress ada 1 (Some 9) 200 store1)
        = Response 200 (ModuleCompleted (Some (row_done\<lparr> tiempo_empleado := 30 \<rparr>)))
   \<and> row_done\<lparr> tiempo_empleado := 30 \<rparr> \<in> set (progreso_usuarios (snd (completeProgress ada 1 (Some 9) 200 store1)))
   \<and> list_all in_sync (progreso_usuarios store1)
   \<and> list_all in_sync (progreso_usuarios (snd (upsertProgress ada 1 (Some 100) (Some 60) (Some 9) 200 store1)))
   \<and> list_all in_sync (progreso_usuarios (snd (completeProgress ada 1 (Some 9) 200 store1)))"
  using completed_flag_in_sync[of 100 ada 1 "Some 60" "Some 9" 200 store1 "Some row_done"
          "Some (row_done\<lparr> tiempo_empleado := 30 \<rparr>)" "Some 100"]
        upsert_ada_100 complete_ada store1_in_sync
  by (simp add: row_done_def)

section \<open>An upsert that leaves fields out\<close>

text \<open>
  Claim C10. For a registered user with an existing row for the module, an upsert that
  succeeds answers with that row, updated in place (no row is added), and in it every
  field that the call left out or gave as 0 is 0: the percentage (then the completed
  flag is false as well), the time spent and the score. No row with that key keeps its
  previous value in such a field.
\<close>

theorem partial_upsert_overwrites:
  assumes ok: "fst (upsertProgress usr m cp ts sc now s) = Response 200 (ProgressUpdated row)"
      and u: "userId usr = Some u"
      and ex: "select_progreso s u m = r0 # rest"
  shows "\<exists>r. row = Some r
           \<and> r \<in> set (progreso_usuarios (snd (upsertProgress usr m cp ts sc now s)))
           \<and> id_progreso r = id_progreso r0
           \<and> (cp = None \<or> cp = Some 0 \<longrightarrow> porcentaje_completado r = 0 \<and> \<not> esta_completado r)
           \<and> (ts = None \<or> ts = Some 0 \<longrightarrow> tiempo_empleado r = 0)
           \<and> (sc = None \<or> sc = Some 0 \<longrightarrow> pu_puntuacion r = 0)
           \<and> length (progreso_usuarios (snd (upsertProgress usr m cp ts sc now s)))
               = length (progreso_usuarios s)
           \<and> (\<forall>x \<in> set (progreso_usuarios (snd (upsertProgress usr m cp ts sc now s))).
                 id_progreso x = id_progreso r0 \<longrightarrow>
                   (cp = None \<or> cp = Some 0 \<longrightarrow> porcentaje_completado x = 0 \<and> \<not> esta_completado x)
                 \<and> (ts = None \<or> ts = Some 0 \<longrightarrow> tiempo_empleado x = 0)
                 \<and> (sc = None \<or> sc = Some 0 \<longrightarrow> pu_puntuacion x = 0))"
proof -
  let ?s' = "snd (upsertProgress usr m cp ts sc now s)"
  let ?f = "upsert_data cp ts sc now"
  from upsertProgress_success[OF ok] u
  have m: "m \<in> set (modulos s)"
    and s': "?s' = upsert_write u m cp ts sc now (map id_progreso (select_progreso s u m)) s"
    and row: "row = first_row (select_progreso_join ?s' u m)"
    by auto
  have w: "?s' = update_progreso s (id_progreso r0) ?f"
    by (simp add: s' ex upsert_write_def)
  have rows: "progreso_usuarios ?s' =
      map (\<lambda>r. if id_progreso r = id_progreso r0 then ?f r else r) (progreso_usuarios s)"
    by (simp only: w progreso_update)
  have j: "select_progreso_join ?s' u m = select_progreso ?s' u m"
    by (rule select_join) (simp add: w modulos_update_progreso m)
  have sel: "select_progreso ?s' u m = ?f r0 # map (\<lambda>r. if id_progreso r = id_progreso r0 then ?f r else r) rest"
    by (simp add: w select_update[OF upsert_data_keys(1,2)] ex)
  have r: "row = Some (?f r0)"
    by (simp add: row j sel first_row_def)
  have "r0 \<in> set (progreso_usuarios s)"
    using select_subset[of s u m] ex by auto
  then have mem: "?f r0 \<in> set (progreso_usuarios ?s')"
    unfolding rows by (auto simp: image_iff intro!: bexI[of _ r0])
  have fields: "(cp = None \<or> cp = Some 0 \<longrightarrow> porcentaje_completado (?f x) = 0 \<and> \<not> esta_completado (?f x))
                 \<and> (ts = None \<or> ts = Some 0 \<longrightarrow> tiempo_empleado (?f x) = 0)
                 \<and> (sc = None \<or> sc = Some 0 \<longrightarrow> pu_puntuacion (?f x) = 0)" for x
    by (auto simp: upsert_data_def or_zero_def ge_num_def)
  have all: "\<forall>x \<in> set (progreso_usuarios ?s').
                 id_progreso x = id_progreso r0 \<longrightarrow>
                   (cp = None \<or> cp = Some 0 \<longrightarrow> porcentaje_completado x = 0 \<and> \<not> esta_completado x)
                 \<and> (ts = None \<or> ts = Some 0 \<longrightarrow> tiempo_empleado x = 0)
                 \<and> (sc = None \<or> sc = Some 0 \<longrightarrow> pu_puntuacion x = 0)"
  proof (intro ballI impI)
    fix x assume x: "x \<in> set (progreso_usuarios ?s')" and i: "id_progreso x = id_progreso r0"
    from x obtain y where y: "y \<in> set (progreso_usuarios s)"
      "x = (if id_progreso y = id_progreso r0 then ?f y else y)"
      unfolding rows by auto
    with i have "x = ?f y" by (auto split: if_splits)
    with fields[of y] show "(cp = None \<or> cp = Some 0 \<longrightarrow> porcentaje_completado x = 0 \<and> \<not> esta_completado x)
                 \<and> (ts = None \<or> ts = Some 0 \<longrightarrow> tiempo_empleado x = 0)
                 \<and> (sc = None \<or> sc = Some 0 \<longrightarrow> pu_puntuacion x = 0)" by simp
  qed
  have len: "length (progreso_usuarios ?s') = length (progreso_usuarios s)"
    by (simp add: rows)
  have id: "id_progreso (?f r0) = id_progreso r0"
    by (rule upsert_data_keys(3))
  from fields[of r0]
  have f1: "cp = None \<or> cp = Some 0 \<longrightarrow> porcentaje_completado (?f r0) = 0 \<and> \<not> esta_completado (?f r0)"
    and f2: "ts = None \<or> ts = Some 0 \<longrightarrow> tiempo_empleado (?f r0) = 0"
    and f3: "sc = None \<or> sc = Some 0 \<longrightarrow> pu_puntuacion (?f r0) = 0"
    by blast+
  show ?thesis
    by (rule exI[of _ "?f r0"]) (intro conjI r mem id f1 f2 f3 len all)
qed

lemma upsert_ada_nothing:
  "upsertProgress ada 1 None None None 200 store1
     = (Response 200 (ProgressUpdated (Some row_reset)), store1\<lparr> progreso_usuarios := [row_reset] \<rparr>)"
  by (simp add: eval_defs row_reset_def)

lemma select_store1: "select_progreso store1 7 1 = [\<lparr> id_progreso = 1, pu_id_usuario = 7, pu_id_modulo = 1,
                          porcentaje_completado = 40, tiempo_empleado = 30,
                          esta_completado = False, pu_puntuacion = 8,
                          ultimo_acceso = Some 5 \<rparr>]"
  by (simp add: select_progreso_def store1_def store0_def)

theorem partial_upsert_overwrites_witness:
  "fst (upsertProgress ada 1 None None None 200 store1) = Response 200 (ProgressUpdated (Some row_reset))
   \<and> userId ada = Some 7
   \<and> select_progreso store1 7 1 = [\<lparr> id_progreso = 1, pu_id_usuario = 7, pu_id_modulo = 1,
                          porcentaje_completado = 40, tiempo_empleado = 30,
                          esta_completado = False, pu_puntuacion = 8,
                          ultimo_acceso = Some 5 \<rparr>]
   \<and> progreso_usuarios (snd (upsertProgress ada 1 None None None 200 store1)) = [row_reset]
   \<and> porcentaje_completado row_reset = 0 \<and> tiempo_empleado row_reset = 0
   \<and> pu_puntuacion row_reset = 0 \<and> \<not> esta_completado row_reset"
  using partial_upsert_overwrites[of ada 1 None None None 200 store1 "Some row_reset" 7, OF _ userId_ada select_store1]
    upsert_ada_nothing userId_ada select_store1
  by (simp add: row_reset_def)

section \<open>One row for each user and module\<close>

lemma rows_for_upsert_write:
  assumes "ex = map id_progreso (select_progreso s u m)"
  shows "rows_for (upsert_write u m cp ts sc now ex s) u' m' =
     (if select_progreso s u m = [] \<and> u' = u \<and> m' = m then 1 else rows_for s u' m')"
proof (cases "select_progreso s u m")
  case Nil
  then show ?thesis using assms
    by (auto simp: rows_for_def upsert_write_def select_insert)
next
  case (Cons r0 rest)
  then have "upsert_write u m cp ts sc now ex s
               = update_progreso s (id_progreso r0) (upsert_data cp ts sc now)"
    using assms by (simp add: upsert_write_def)
  then show ?thesis using Cons
    by (simp add: rows_for_def select_update[OF upsert_data_keys(1,2)])
qed

lemma rows_for_complete_write:
  assumes "ex = map id_progreso (select_progreso s u m)"
  shows "rows_for (complete_write u m sc now ex s) u' m' =
     (if select_progreso s u m = [] \<and> u' = u \<and> m' = m then 1 else rows_for s u' m')"
proof (cases "select_progreso s u m")
  case Nil
  then show ?thesis using assms
    by (auto simp: rows_for_def complete_write_def select_insert)
next
  case (Cons r0 rest)
  then have "complete_write u m sc now ex s
               = update_progreso s (id_progreso r0) (complete_data sc now)"
    using assms by (simp add: complete_write_def)
  then show ?thesis using Cons
    by (simp add: rows_for_def select_update[OF complete_data_keys(1,2)])
qed

lemma rows_for_upsertProgress:
  "rows_for s u' m' \<le> 1 \<Longrightarrow> rows_for (snd (upsertProgress usr m cp ts sc now s)) u' m' \<le> 1"
proof (cases "upsert_select usr m cp ts sc s")
  case (Inl reply)
  assume "rows_for s u' m' \<le> 1"
  then show ?thesis by (simp add: upsertProgress_def Inl)
next
  case (Inr p)
  assume le: "rows_for s u' m' \<le> 1"
  obtain u ex where sel: "upsert_select usr m cp ts sc s = Inr (u, ex)"
    using Inr by (cases p) simp
  from upsert_select_Inr[OF sel] have ex: "ex = map id_progreso (select_progreso s u m)" by simp
  have "snd (upsertProgress usr m cp ts sc now s) = upsert_write u m cp ts sc now ex s"
    by (simp add: upsertProgress_def sel Let_def)
  then show ?thesis using le by (simp add: rows_for_upsert_write[OF ex])
qed

lemma rows_for_completeProgress:
  "rows_for s u' m' \<le> 1 \<Longrightarrow> rows_for (snd (completeProgress usr m sc now s)) u' m' \<le> 1"
proof (cases "complete_select usr m s")
  case (Inl reply)
  assume "rows_for s u' m' \<le> 1"
  then show ?thesis by (simp add: completeProgress_def Inl)
next
  case (Inr p)
  assume le: "rows_for s u' m' \<le> 1"
  obtain u ex where sel: "complete_select usr m s = Inr (u, ex)"
    using Inr by (cases p) simp
  from complete_select_Inr[OF sel] have ex: "ex = map id_progreso (select_progreso s u m)" by simp
  have "snd (completeProgress usr m sc now s) = complete_write u m sc now ex s"
    by (simp add: completeProgress_def sel Let_def)
  then show ?thesis using le by (simp add: rows_for_complete_write[OF ex])
qed

lemma getProgress_store:
  "snd (getProgress usr m s) = s
   \<or> (\<exists>u row. select_progreso s u m = [] \<and> pu_id_usuario row = u \<and> pu_id_modulo row = m
         \<and> snd (getProgress usr m s) = snd (insert_progreso s row))"
proof (cases "requireRegisteredUser usr = None \<and> m \<in> set (modulos s) \<and> userId usr \<noteq> None")
  case False
  then show ?thesis
    by (auto simp: getProgress_def findById_modulos_def split: option.splits)
next
  case True
  then obtain u where u: "userId usr = Some u" by auto
  show ?thesis
  proof (cases "select_progreso s u m = []")
    case Nil: True
    let ?row = "\<lparr> id_progreso = 0, pu_id_usuario = u, pu_id_modulo = m,
                  porcentaje_completado = 0, tiempo_empleado = 0,
                  esta_completado = False, pu_puntuacion = 0,
                  ultimo_acceso = None \<rparr>"
    from True u Nil have "snd (getProgress usr m s) = snd (insert_progreso s ?row)"
      by (simp add: getProgress_def findById_modulos_def select_join Let_def case_prod_unfold)
    with Nil show ?thesis
      by (intro disjI2 exI[of _ u] exI[of _ ?row]) simp
  next
    case False
    with True u show ?thesis
      by (simp add: getProgress_def findById_modulos_def select_join Let_def)
  qed
qed

lemma rows_for_getProgress:
  assumes "rows_for s u' m' \<le> 1"
  shows "rows_for (snd (getProgress usr m s)) u' m' \<le> 1"
  using getProgress_store[of usr m s] assms
  by (auto simp: rows_for_def select_insert)

lemma rows_for_perform:
  "rows_for s u m \<le> 1 \<Longrightarrow> rows_for (snd (perform usr now c s)) u m \<le> 1"
  by (cases c)
     (simp_all add: rows_for_getProgress rows_for_upsertProgress rows_for_completeProgress
        del: One_nat_def)

lemma sequential_calls_keep_one_row:
  "rows_for s u m \<le> 1 \<Longrightarrow> rows_for (snd (run_calls usr cs s)) u m \<le> 1"
proof (induction cs arbitrary: s)
  case Nil
  then show ?case by simp
next
  case (Cons a cs)
  obtain now c where a: "a = (now, c)" by (cases a)
  from rows_for_perform[OF Cons.prems, of usr now c]
  have "rows_for (snd (run_calls usr cs (snd (perform usr now c s)))) u m \<le> 1"
    by (rule Cons.IH)
  then show ?case by (simp add: a case_prod_unfold Let_def)
qed

lemma one_request_alone:
  "run_schedule [(0, t), (0, now)] [Pending (PutProgress usr m cp ts sc)] s
     = ([Finished (fst (upsertProgress usr m cp ts sc now s))],
        snd (upsertProgress usr m cp ts sc now s))"
  by (cases "upsert_select usr m cp ts sc s")
     (auto simp: upsertProgress_def Let_def)

lemmas run_defs = two_puts_def rows_for_def userType_ada userId_ada
  upsert_select_def upsert_write_def upsert_reply_def
  select_progreso_def select_progreso_join_def findById_modulos_def update_progreso_def
  insert_progreso_def upsert_data_def first_row_def
  store0_def lt_num_def gt_num_def ge_num_def or_zero_def Let_def

text \<open>
  Claim C1, evaluated where the code departs from it. Two upserts of the same user for
  the same module are in flight; both run their \<open>SELECT\<close> before either writes. Each
  sees no row and inserts one: the pair, which had no row, ends with two.
\<close>

theorem interleaved_upserts_two_rows:
  "rows_for store0 7 1 = 0
   \<and> rows_for (snd (run_schedule [(0, 1), (1, 2), (0, 3), (1, 4)] two_puts store0)) 7 1 = 2"
  by (simp add: run_defs)

lemma serial_upserts_one_row:
  "rows_for (snd (run_schedule [(0, 1), (0, 2), (1, 3), (1, 4)] two_puts store0)) 7 1 = 1"
  by (simp add: run_defs)

end
